theory Spec2Isabelle
  imports Complex_Main "HOL-Library.Multiset"
begin

section \<open>Factory energy retrofit simulator: the calculation engine of app.py\<close>

text \<open>
  The engine of \<^verbatim>\<open>src/app.py\<close>: the two interpolated look-ups of class
  \<^verbatim>\<open>MotorSystem\<close>, the lighting energy formula, the simulation pass of tab 3 and the
  recommendation list of tab 4.

  Python's floats are modelled as \<^typ>\<open>real\<close>: every arithmetic operation is the exact
  one, rounding is not part of the model. Python's ints are \<^typ>\<open>int\<close>. A float division
  whose divisor is a variable raises \<^verbatim>\<open>ZeroDivisionError\<close> at zero; a division under
  the source's own guard \<^verbatim>\<open>if d > 0\<close>, or by a literal, is written with \<open>/\<close>.

  Where an int meets a float, Python converts the int; the model converts exactly and
  always. Python raises \<^verbatim>\<open>OverflowError\<close> when the int is beyond the range of a double,
  which the model does not have: \<open>fits_float\<close> below states the range, and a theorem that
  says of every inventory that the pass returns carries it as a hypothesis.
\<close>

subsection \<open>Errors\<close>

datatype py_error = ZeroDivisionError | IndexError | KeyError

definition bind_r :: "py_error + 'a \<Rightarrow> ('a \<Rightarrow> py_error + 'b) \<Rightarrow> py_error + 'b" where
  "bind_r r f = (case r of Inl e \<Rightarrow> Inl e | Inr v \<Rightarrow> f v)"

definition fdiv :: "real \<Rightarrow> real \<Rightarrow> py_error + real" where
  "fdiv a b = (if b = 0 then Inl ZeroDivisionError else Inr (a / b))"

subsection \<open>class MotorSystem\<close>

text \<open>
  A curve is a dict from load factor to value; \<^verbatim>\<open>list(curve.keys())\<close> and
  \<^verbatim>\<open>list(curve.values())\<close> read it in insertion order, so it is the list of its items.
\<close>

type_synonym curve = "(real \<times> real) list"

definition IE1_curve :: curve where
  "IE1_curve = [(0.25, 0.78), (0.50, 0.85), (0.75, 0.88), (1.00, 0.89)]"

definition IE2_curve :: curve where
  "IE2_curve = [(0.25, 0.82), (0.50, 0.88), (0.75, 0.90), (1.00, 0.91)]"

definition IE3_curve :: curve where
  "IE3_curve = [(0.25, 0.85), (0.50, 0.90), (0.75, 0.92), (1.00, 0.93)]"

definition IE4_curve :: curve where
  "IE4_curve = [(0.25, 0.88), (0.50, 0.93), (0.75, 0.95), (1.00, 0.96)]"

definition EFFICIENCY_CURVES :: "(string \<times> curve) list" where
  "EFFICIENCY_CURVES =
     [(''IE1'', IE1_curve), (''IE2'', IE2_curve), (''IE3'', IE3_curve), (''IE4'', IE4_curve)]"

definition MOTOR_COSTS :: "(string \<times> int) list" where
  "MOTOR_COSTS = [(''IE2'', 50), (''IE3'', 65), (''IE4'', 85)]"

text \<open>\<^verbatim>\<open>d[k]\<close> and \<^verbatim>\<open>d.get(k, default)\<close>.\<close>

definition dict_index :: "('k \<times> 'v) list \<Rightarrow> 'k \<Rightarrow> py_error + 'v" where
  "dict_index d k = (case map_of d k of Some v \<Rightarrow> Inr v | None \<Rightarrow> Inl KeyError)"

definition dict_get :: "('k \<times> 'v) list \<Rightarrow> 'k \<Rightarrow> 'v \<Rightarrow> 'v" where
  "dict_get d k dflt = (case map_of d k of Some v \<Rightarrow> v | None \<Rightarrow> dflt)"

text \<open>
  The loop \<^verbatim>\<open>for i in range(len(load_points)-1)\<close> of \<^verbatim>\<open>get_efficiency\<close> and of
  \<^verbatim>\<open>calculate_vfd_savings\<close>: the first pair of neighbouring anchors that encloses the
  load factor decides. \<open>None\<close> is the loop running to its end.
\<close>

fun interp_loop :: "curve \<Rightarrow> real \<Rightarrow> (py_error + real) option" where
  "interp_loop ((x1, y1) # (x2, y2) # ps) load_factor =
     (if x1 \<le> load_factor \<and> load_factor \<le> x2
      then Some (bind_r (fdiv ((y2 - y1) * (load_factor - x1)) (x2 - x1)) (\<lambda>q. Inr (y1 + q)))
      else interp_loop ((x2, y2) # ps) load_factor)"
| "interp_loop ps load_factor = None"

text \<open>
  After the loop: \<^verbatim>\<open>efficiencies[-1] if load_factor >= 1.0 else efficiencies[0]\<close>;
  indexing an empty list raises.
\<close>

definition end_value :: "curve \<Rightarrow> real \<Rightarrow> py_error + real" where
  "end_value ps load_factor =
     (if ps = [] then Inl IndexError
      else Inr (if load_factor \<ge> 1.0 then snd (last ps) else snd (hd ps)))"

definition interpolate :: "curve \<Rightarrow> real \<Rightarrow> py_error + real" where
  "interpolate ps load_factor =
     (case interp_loop ps load_factor of Some r \<Rightarrow> r | None \<Rightarrow> end_value ps load_factor)"

text \<open>The local \<^verbatim>\<open>curve\<close> of \<^verbatim>\<open>get_efficiency\<close>.\<close>

definition efficiency_curve :: "string \<Rightarrow> py_error + curve" where
  "efficiency_curve efficiency_class =
     bind_r (dict_index EFFICIENCY_CURVES ''IE2'') (\<lambda>dflt.
       Inr (dict_get EFFICIENCY_CURVES efficiency_class dflt))"

definition get_efficiency :: "string \<Rightarrow> real \<Rightarrow> py_error + real" where
  "get_efficiency efficiency_class load_factor =
     bind_r (efficiency_curve efficiency_class) (\<lambda>curve. interpolate curve load_factor)"

definition vfd_savings_curve :: curve where
  "vfd_savings_curve = [(0.25, 0.40), (0.50, 0.25), (0.75, 0.10), (1.00, 0.00)]"

text \<open>The local \<^verbatim>\<open>savings\<close> of \<^verbatim>\<open>calculate_vfd_savings\<close>.\<close>

definition vfd_savings_fraction :: "real \<Rightarrow> py_error + real" where
  "vfd_savings_fraction load_factor = interpolate vfd_savings_curve load_factor"

text \<open>Returns \<^verbatim>\<open>(saved_energy, cost_savings, savings * 100)\<close>.\<close>

definition calculate_vfd_savings ::
  "real \<Rightarrow> real \<Rightarrow> real \<Rightarrow> real \<Rightarrow> py_error + (real \<times> real \<times> real)" where
  "calculate_vfd_savings load_factor motor_power operating_hours electricity_cost =
     bind_r (vfd_savings_fraction load_factor) (\<lambda>savings.
       let base_power = motor_power * load_factor;
           base_energy = base_power * operating_hours;
           saved_energy = base_energy * savings;
           cost_savings = saved_energy * electricity_cost
       in Inr (saved_energy, cost_savings, savings * 100))"

subsection \<open>class LightingSystem\<close>

text \<open>\<^verbatim>\<open>LIGHTING_TYPES['LED']['cost_per_unit']\<close>, the one entry of the table the engine reads.\<close>

definition LED_cost_per_unit :: int where
  "LED_cost_per_unit = 15"

definition calculate_lighting_energy :: "int \<Rightarrow> int \<Rightarrow> int \<Rightarrow> real" where
  "calculate_lighting_energy num_fixtures wattage_per_fixture operating_hours =
     real_of_int (num_fixtures * wattage_per_fixture * operating_hours) / 1000"

subsection \<open>Tab 3: the simulation pass\<close>

record motor =
  rating :: real
  quantity :: int
  load_factor :: real
  current_class :: string
  vfd_applicable :: bool

record motor_upgrade =
  mu_motor_id :: nat
  mu_rating :: real
  mu_quantity :: int
  mu_current_class :: string
  mu_energy_savings :: real
  mu_cost_savings :: real
  mu_upgrade_cost :: real
  mu_payback_years :: real

record vfd_result =
  vfd_motor_id :: nat
  vfd_rating :: real
  vfd_quantity :: int
  vfd_energy_savings :: real
  vfd_cost_savings :: real
  vfd_cost :: real
  vfd_payback_years :: real
  vfd_savings_pct :: real

record lighting_result =
  lt_current_energy :: real
  lt_led_energy :: real
  lt_energy_savings :: real
  lt_cost_savings :: real
  lt_retrofit_cost :: real
  lt_payback_years :: real

text \<open>The local variables of one pass of the motor loop, lines 380 to 392.\<close>

record motor_locals =
  current_eff :: real
  current_power :: real
  current_energy :: real
  current_input :: real
  ie4_eff :: real
  ie4_input :: real
  energy_savings_motor :: real
  cost_savings_motor :: real
  upgrade_cost :: real

definition motor_locals_of :: "motor \<Rightarrow> int \<Rightarrow> real \<Rightarrow> py_error + motor_locals" where
  "motor_locals_of m total_hours electricity_cost =
     bind_r (get_efficiency (current_class m) (load_factor m)) (\<lambda>ceff.
       let cpower = rating m * load_factor m;
           cenergy = cpower * real_of_int total_hours * real_of_int (quantity m)
       in bind_r (fdiv cenergy ceff) (\<lambda>cinput.
            bind_r (get_efficiency ''IE4'' (load_factor m)) (\<lambda>i4eff.
              bind_r (fdiv cenergy i4eff) (\<lambda>i4input.
                bind_r (dict_index MOTOR_COSTS ''IE4'') (\<lambda>cost_ie4.
                  bind_r (dict_index MOTOR_COSTS ''IE2'') (\<lambda>cost_ie2.
                    let esav = cinput - i4input;
                        csav = esav * electricity_cost;
                        ucost = rating m * real_of_int (quantity m) *
                          real_of_int (cost_ie4 - dict_get MOTOR_COSTS (current_class m) cost_ie2)
                    in Inr \<lparr>current_eff = ceff, current_power = cpower,
                             current_energy = cenergy, current_input = cinput,
                             ie4_eff = i4eff, ie4_input = i4input,
                             energy_savings_motor = esav, cost_savings_motor = csav,
                             upgrade_cost = ucost\<rparr>))))))"

text \<open>The dict appended to \<^verbatim>\<open>results['motor_upgrades']\<close>; \<open>i\<close> is the index of \<^verbatim>\<open>enumerate\<close>.\<close>

definition motor_upgrade_entry :: "nat \<Rightarrow> motor \<Rightarrow> motor_locals \<Rightarrow> motor_upgrade" where
  "motor_upgrade_entry i m l =
     \<lparr>mu_motor_id = i + 1, mu_rating = rating m, mu_quantity = quantity m,
      mu_current_class = current_class m,
      mu_energy_savings = energy_savings_motor l,
      mu_cost_savings = cost_savings_motor l,
      mu_upgrade_cost = max (upgrade_cost l) 100,
      mu_payback_years =
        (if cost_savings_motor l > 0 then max (upgrade_cost l) 100 / cost_savings_motor l
         else 999)\<rparr>"

definition evaluate_upgrade :: "nat \<Rightarrow> motor \<Rightarrow> int \<Rightarrow> real \<Rightarrow> py_error + motor_upgrade" where
  "evaluate_upgrade i m total_hours electricity_cost =
     bind_r (motor_locals_of m total_hours electricity_cost) (\<lambda>l.
       Inr (motor_upgrade_entry i m l))"

text \<open>The dict appended to \<^verbatim>\<open>results['vfd_savings']\<close>, lines 410 to 424.\<close>

definition evaluate_vfd :: "nat \<Rightarrow> motor \<Rightarrow> int \<Rightarrow> real \<Rightarrow> py_error + vfd_result" where
  "evaluate_vfd i m total_hours electricity_cost =
     bind_r (calculate_vfd_savings (load_factor m) (rating m)
               (real_of_int (total_hours * quantity m)) electricity_cost)
       (\<lambda>(vfd_energy, vfd_cost_sav, vfd_pct).
          let vcost = rating m * real_of_int (quantity m) * 100
          in Inr \<lparr>vfd_motor_id = i + 1, vfd_rating = rating m, vfd_quantity = quantity m,
                   vfd_energy_savings = vfd_energy, vfd_cost_savings = vfd_cost_sav,
                   vfd_cost = vcost,
                   vfd_payback_years = (if vfd_cost_sav > 0 then vcost / vfd_cost_sav else 999),
                   vfd_savings_pct = vfd_pct\<rparr>)"

text \<open>The state the loop updates: the two result lists and the four running totals.\<close>

record loop_state =
  ls_motor_upgrades :: "motor_upgrade list"
  ls_vfd_savings :: "vfd_result list"
  total_motor_upgrade_savings :: real
  total_motor_upgrade_cost :: real
  total_vfd_savings :: real
  total_vfd_cost :: real

definition init_state :: loop_state where
  "init_state = \<lparr>ls_motor_upgrades = [], ls_vfd_savings = [],
     total_motor_upgrade_savings = 0, total_motor_upgrade_cost = 0,
     total_vfd_savings = 0, total_vfd_cost = 0\<rparr>"

definition motor_step :: "nat \<Rightarrow> motor \<Rightarrow> int \<Rightarrow> real \<Rightarrow> loop_state \<Rightarrow> py_error + loop_state" where
  "motor_step i m total_hours electricity_cost st =
     bind_r (evaluate_upgrade i m total_hours electricity_cost) (\<lambda>u.
       let st1 = st\<lparr>ls_motor_upgrades := ls_motor_upgrades st @ [u],
                    total_motor_upgrade_savings :=
                      total_motor_upgrade_savings st + mu_cost_savings u,
                    total_motor_upgrade_cost :=
                      total_motor_upgrade_cost st + mu_upgrade_cost u\<rparr>
       in if vfd_applicable m
          then bind_r (evaluate_vfd i m total_hours electricity_cost) (\<lambda>v.
                 Inr (st1\<lparr>ls_vfd_savings := ls_vfd_savings st1 @ [v],
                          total_vfd_savings := total_vfd_savings st1 + vfd_cost_savings v,
                          total_vfd_cost := total_vfd_cost st1 + vfd_cost v\<rparr>))
          else Inr st1)"

fun motor_loop :: "nat \<Rightarrow> motor list \<Rightarrow> int \<Rightarrow> real \<Rightarrow> loop_state \<Rightarrow> py_error + loop_state" where
  "motor_loop i [] total_hours electricity_cost st = Inr st"
| "motor_loop i (m # ms) total_hours electricity_cost st =
     bind_r (motor_step i m total_hours electricity_cost st) (\<lambda>st'.
       motor_loop (Suc i) ms total_hours electricity_cost st')"

text \<open>The lighting inputs of tab 2 and the sidebar's operating days.\<close>

record lighting_config =
  num_fixtures :: int
  wattage_per :: int
  daily_hours :: int
  led_wattage :: int

definition evaluate_lighting :: "lighting_config \<Rightarrow> int \<Rightarrow> real \<Rightarrow> lighting_result" where
  "evaluate_lighting lc operating_days electricity_cost =
     (let current_lighting_energy =
            calculate_lighting_energy (num_fixtures lc) (wattage_per lc)
              (daily_hours lc * operating_days);
          led_energy =
            calculate_lighting_energy (num_fixtures lc) (led_wattage lc)
              (daily_hours lc * operating_days);
          lighting_energy_savings = current_lighting_energy - led_energy;
          lighting_cost_savings = lighting_energy_savings * electricity_cost;
          lighting_retrofit_cost = real_of_int (num_fixtures lc * LED_cost_per_unit * 10)
      in \<lparr>lt_current_energy = current_lighting_energy, lt_led_energy = led_energy,
          lt_energy_savings = lighting_energy_savings,
          lt_cost_savings = lighting_cost_savings,
          lt_retrofit_cost = lighting_retrofit_cost,
          lt_payback_years =
            (if lighting_cost_savings > 0 then lighting_retrofit_cost / lighting_cost_savings
             else 999)\<rparr>)"

record results =
  motor_upgrades :: "motor_upgrade list"
  vfd_savings :: "vfd_result list"
  lighting_retrofit :: lighting_result

definition run_simulation ::
  "motor list \<Rightarrow> lighting_config \<Rightarrow> int \<Rightarrow> int \<Rightarrow> real \<Rightarrow> py_error + results" where
  "run_simulation motors_data lc operating_days total_hours electricity_cost =
     bind_r (motor_loop 0 motors_data total_hours electricity_cost init_state) (\<lambda>st.
       Inr \<lparr>motor_upgrades = ls_motor_upgrades st, vfd_savings = ls_vfd_savings st,
            lighting_retrofit = evaluate_lighting lc operating_days electricity_cost\<rparr>)"

text \<open>Python's \<^verbatim>\<open>sum\<close>: from 0, left to right.\<close>

definition py_sum :: "real list \<Rightarrow> real" where
  "py_sum xs = foldl (+) 0 xs"

definition total_energy_savings :: "results \<Rightarrow> real" where
  "total_energy_savings res =
     py_sum (map mu_energy_savings (motor_upgrades res)) +
     py_sum (map vfd_energy_savings (vfd_savings res)) +
     lt_energy_savings (lighting_retrofit res)"

definition total_cost_savings :: "results \<Rightarrow> real" where
  "total_cost_savings res =
     py_sum (map mu_cost_savings (motor_upgrades res)) +
     py_sum (map vfd_cost_savings (vfd_savings res)) +
     lt_cost_savings (lighting_retrofit res)"

definition co2_reduction :: "results \<Rightarrow> real \<Rightarrow> real" where
  "co2_reduction res carbon_factor = total_energy_savings res * carbon_factor / 1000"

subsection \<open>Tab 4: the recommendations\<close>

text \<open>
  The source stores the description, the investment, the annual savings and the payback of
  a recommendation as formatted text. The model keeps the values that are formatted: the
  description as the tuple of values its f-string reads, the three amounts as numbers.
\<close>

datatype description =
  MotorDesc nat char real int
| VfdDesc nat real int
| LedDesc int int

record recommendation =
  rec_type :: string
  rec_description :: description
  rec_investment :: real
  rec_annual_savings :: real
  rec_payback :: real
  rec_priority :: string
  rec_sort_key :: real

definition priority_of :: "real \<Rightarrow> string" where
  "priority_of payback_years = (if payback_years \<le> 2 then ''High'' else ''Medium'')"

definition sort_key_of :: "real \<Rightarrow> real" where
  "sort_key_of payback_years = (if payback_years > 0 then 1 / payback_years else 0)"

text \<open>The three dict literals of lines 597 to 631.\<close>

definition motor_rec :: "motor_upgrade \<Rightarrow> recommendation" where
  "motor_rec motor =
     \<lparr>rec_type = ''Motor Upgrade'',
      rec_description = MotorDesc (mu_motor_id motor) (last (mu_current_class motor))
                          (mu_rating motor) (mu_quantity motor),
      rec_investment = mu_upgrade_cost motor,
      rec_annual_savings = mu_cost_savings motor,
      rec_payback = mu_payback_years motor,
      rec_priority = priority_of (mu_payback_years motor),
      rec_sort_key = sort_key_of (mu_payback_years motor)\<rparr>"

definition vfd_rec :: "vfd_result \<Rightarrow> recommendation" where
  "vfd_rec vfd =
     \<lparr>rec_type = ''VFD Installation'',
      rec_description = VfdDesc (vfd_motor_id vfd) (vfd_rating vfd) (vfd_quantity vfd),
      rec_investment = vfd_cost vfd,
      rec_annual_savings = vfd_cost_savings vfd,
      rec_payback = vfd_payback_years vfd,
      rec_priority = priority_of (vfd_payback_years vfd),
      rec_sort_key = sort_key_of (vfd_payback_years vfd)\<rparr>"

definition lighting_rec :: "lighting_result \<Rightarrow> lighting_config \<Rightarrow> recommendation" where
  "lighting_rec lighting lc =
     \<lparr>rec_type = ''Lighting Retrofit'',
      rec_description = LedDesc (num_fixtures lc) (led_wattage lc),
      rec_investment = lt_retrofit_cost lighting,
      rec_annual_savings = lt_cost_savings lighting,
      rec_payback = lt_payback_years lighting,
      rec_priority = priority_of (lt_payback_years lighting),
      rec_sort_key = sort_key_of (lt_payback_years lighting)\<rparr>"

text \<open>
  The three loops that append to \<^verbatim>\<open>recommendations\<close>. The f-string of a motor upgrade
  reads \<^verbatim>\<open>motor['current_class'][-1]\<close>, which raises on an empty class name.
\<close>

fun motor_recs :: "motor_upgrade list \<Rightarrow> py_error + recommendation list" where
  "motor_recs [] = Inr []"
| "motor_recs (motor # ms) =
     (if mu_payback_years motor \<le> 5
      then (if mu_current_class motor = [] then Inl IndexError
            else bind_r (motor_recs ms) (\<lambda>rs. Inr (motor_rec motor # rs)))
      else motor_recs ms)"

fun vfd_recs :: "vfd_result list \<Rightarrow> recommendation list" where
  "vfd_recs [] = []"
| "vfd_recs (vfd # vs) =
     (if vfd_payback_years vfd \<le> 4 then vfd_rec vfd # vfd_recs vs else vfd_recs vs)"

definition lighting_recs :: "lighting_result \<Rightarrow> lighting_config \<Rightarrow> recommendation list" where
  "lighting_recs lighting lc =
     (if lt_payback_years lighting \<le> 5 then [lighting_rec lighting lc] else [])"

text \<open>The list before \<^verbatim>\<open>recommendations.sort\<close>.\<close>

definition build_recommendations :: "results \<Rightarrow> lighting_config \<Rightarrow> py_error + recommendation list" where
  "build_recommendations res lc =
     bind_r (motor_recs (motor_upgrades res)) (\<lambda>ms.
       Inr (ms @ vfd_recs (vfd_savings res) @ lighting_recs (lighting_retrofit res) lc))"

text \<open>
  \<^verbatim>\<open>recommendations.sort(key=lambda x: x['sort_key'], reverse=True)\<close>: Python's sort is
  stable, also with \<^verbatim>\<open>reverse=True\<close>, so it is the stable sort by the negated key.
\<close>

definition sort_recommendations :: "recommendation list \<Rightarrow> recommendation list" where
  "sort_recommendations rs = sort_key (\<lambda>r. - rec_sort_key r) rs"

definition recommendations :: "results \<Rightarrow> lighting_config \<Rightarrow> py_error + recommendation list" where
  "recommendations res lc =
     bind_r (build_recommendations res lc) (\<lambda>rs. Inr (sort_recommendations rs))"

subsection \<open>Ints that convert to floats\<close>

text \<open>
  Python converts an int to a double by rounding to nearest, ties to even, and raises
  \<^verbatim>\<open>OverflowError\<close> when the result would be \<open>2 ^ 1024\<close> or more; the largest double is
  \<open>2 ^ 1024 - 2 ^ 971\<close>, so the ints that convert are those below \<open>2 ^ 1024 - 2 ^ 970\<close> in
  absolute value.
\<close>

definition fits_float :: "int \<Rightarrow> bool" where
  "fits_float n \<longleftrightarrow> \<bar>n\<bar> < 2 ^ 1024 - 2 ^ 970"

text \<open>
  The ints of one pass that meet a float: the annual hours and the quantity of a motor
  group (lines 382, 390 and 413), their product (line 411), the int products that
  \<^verbatim>\<open>calculate_lighting_energy\<close> divides by 1000, and the retrofit cost (line 446).
\<close>

definition conversions_fit :: "motor list \<Rightarrow> lighting_config \<Rightarrow> int \<Rightarrow> int \<Rightarrow> bool" where
  "conversions_fit motors_data lc operating_days total_hours \<longleftrightarrow>
     fits_float total_hours \<and>
     list_all (\<lambda>m. fits_float (quantity m) \<and> fits_float (total_hours * quantity m))
       motors_data \<and>
     fits_float (num_fixtures lc * wattage_per lc * (daily_hours lc * operating_days)) \<and>
     fits_float (num_fixtures lc * led_wattage lc * (daily_hours lc * operating_days)) \<and>
     fits_float (num_fixtures lc * LED_cost_per_unit * 10)"

subsection \<open>Default inventory\<close>

text \<open>
  \<^verbatim>\<open>motors_data[0]\<close> and \<^verbatim>\<open>motors_data[3]\<close> for the factory type Textile with every
  widget of tab 1 left at its default: the entries of \<^verbatim>\<open>get_default_motors\<close>, and the
  checkbox default \<^verbatim>\<open>load_factor < 0.8\<close>.
\<close>

definition default_textile_motor_1 :: motor where
  "default_textile_motor_1 =
     \<lparr>rating = 15, quantity = 8, load_factor = 0.75, current_class = ''IE2'',
      vfd_applicable = (0.75 < (0.8::real))\<rparr>"

definition default_textile_motor_4 :: motor where
  "default_textile_motor_4 =
     \<lparr>rating = 55, quantity = 2, load_factor = 0.85, current_class = ''IE1'',
      vfd_applicable = (0.85 < (0.8::real))\<rparr>"

text \<open>
  The lighting inputs of tab 2 for the factory type Textile with every widget left at its
  default: \<^verbatim>\<open>get_default_lighting\<close>, and the slider default \<^verbatim>\<open>int(wattage_per * 0.4)\<close>.
\<close>

definition default_textile_lighting :: lighting_config where
  "default_textile_lighting =
     \<lparr>num_fixtures = 200, wattage_per = 40, daily_hours = 16, led_wattage = 16\<rparr>"

section \<open>Properties\<close>

subsection \<open>Evaluation rules\<close>

lemma bind_r_simps: "bind_r (Inl e) f = Inl e" "bind_r (Inr v) f = f v"
  by (simp_all add: bind_r_def)

lemma efficiency_curve_cases:
  "efficiency_curve c = Inr (if c = ''IE1'' then IE1_curve else if c = ''IE3'' then IE3_curve
     else if c = ''IE4'' then IE4_curve else IE2_curve)"
  by (simp add: efficiency_curve_def dict_index_def dict_get_def EFFICIENCY_CURVES_def bind_r_simps)

lemma efficiency_curve_in:
  "\<exists>pts. efficiency_curve c = Inr pts \<and> pts \<in> {IE1_curve, IE2_curve, IE3_curve, IE4_curve}"
  by (simp add: efficiency_curve_cases)

lemma curve_anchors:
  "IE1_curve = [(1/4, 78/100), (1/2, 85/100), (3/4, 88/100), (1, 89/100)]"
  "IE2_curve = [(1/4, 82/100), (1/2, 88/100), (3/4, 90/100), (1, 91/100)]"
  "IE3_curve = [(1/4, 85/100), (1/2, 90/100), (3/4, 92/100), (1, 93/100)]"
  "IE4_curve = [(1/4, 88/100), (1/2, 93/100), (3/4, 95/100), (1, 96/100)]"
  "vfd_savings_curve = [(1/4, 40/100), (1/2, 25/100), (3/4, 10/100), (1, 0)]"
  by (simp_all add: IE1_curve_def IE2_curve_def IE3_curve_def IE4_curve_def vfd_savings_curve_def)

text \<open>All five curves have the anchors 0.25, 0.5, 0.75 and 1; a closed form of the look-up.\<close>

lemma interpolate_quarters:
  "interpolate [(1/4, y0), (1/2, y1), (3/4, y2), (1, y3)] lf =
     Inr (if lf < 1/4 then y0
          else if lf \<le> 1/2 then y0 + (y1 - y0) * (lf - 1/4) * 4
          else if lf \<le> 3/4 then y1 + (y2 - y1) * (lf - 1/2) * 4
          else if lf \<le> 1 then y2 + (y3 - y2) * (lf - 3/4) * 4
          else y3)"
  by (simp add: interpolate_def end_value_def fdiv_def bind_r_simps)

lemma quarters_cases:
  assumes "interpolate [(1/4, y0), (1/2, y1), (3/4, y2), (1, y3)] lf = Inr e"
  obtains (below) "lf < 1/4" "e = y0"
    | (first) "1/4 \<le> lf" "lf \<le> 1/2" "e = y0 + (y1 - y0) * (lf - 1/4) * 4"
    | (second) "1/2 < lf" "lf \<le> 3/4" "e = y1 + (y2 - y1) * (lf - 1/2) * 4"
    | (third) "3/4 < lf" "lf \<le> 1" "e = y2 + (y3 - y2) * (lf - 3/4) * 4"
    | (above) "1 < lf" "e = y3"
  using assms unfolding interpolate_quarters
  by (auto split: if_splits simp del: times_divide_eq_left times_divide_eq_right)

lemma quarters_region:
  "lf < 1/4 \<Longrightarrow> interpolate [(1/4, y0), (1/2, y1), (3/4, y2), (1, y3)] lf = Inr y0"
  "1/4 \<le> lf \<Longrightarrow> lf \<le> 1/2 \<Longrightarrow>
     interpolate [(1/4, y0), (1/2, y1), (3/4, y2), (1, y3)] lf =
       Inr (y0 + (y1 - y0) * (lf - 1/4) * 4)"
  "1/2 < lf \<Longrightarrow> lf \<le> 3/4 \<Longrightarrow>
     interpolate [(1/4, y0), (1/2, y1), (3/4, y2), (1, y3)] lf =
       Inr (y1 + (y2 - y1) * (lf - 1/2) * 4)"
  "3/4 < lf \<Longrightarrow> lf \<le> 1 \<Longrightarrow>
     interpolate [(1/4, y0), (1/2, y1), (3/4, y2), (1, y3)] lf =
       Inr (y2 + (y3 - y2) * (lf - 3/4) * 4)"
  "1 < lf \<Longrightarrow> interpolate [(1/4, y0), (1/2, y1), (3/4, y2), (1, y3)] lf = Inr y3"
  unfolding interpolate_quarters by simp_all

lemma regions:
  obtains (below) "lf < 1/4" | (first) "1/4 \<le> lf" "lf \<le> 1/2"
    | (second) "1/2 < lf" "lf \<le> 3/4" | (third) "3/4 < lf" "lf \<le> 1" | (above) "(1::real) < lf"
  by linarith

lemma get_efficiency_known:
  "get_efficiency ''IE1'' lf = interpolate IE1_curve lf"
  "get_efficiency ''IE2'' lf = interpolate IE2_curve lf"
  "get_efficiency ''IE3'' lf = interpolate IE3_curve lf"
  "get_efficiency ''IE4'' lf = interpolate IE4_curve lf"
  by (simp_all add: get_efficiency_def efficiency_curve_cases bind_r_simps)

lemma interpolate_quarters_total:
  "\<exists>e. interpolate [(1/4, y0), (1/2, y1), (3/4, y2), (1, y3)] lf = Inr e"
  unfolding interpolate_quarters by blast

lemma efficiency_interpolate_bounds:
  assumes "pts \<in> {IE1_curve, IE2_curve, IE3_curve, IE4_curve}"
  shows "\<exists>e. interpolate pts lf = Inr e \<and> 78/100 \<le> e \<and> e \<le> 96/100"
proof -
  have ex: "\<exists>e. interpolate pts lf = Inr e"
    using assms by (auto simp only: curve_anchors interpolate_quarters_total)
  then obtain e where e: "interpolate pts lf = Inr e" ..
  from assms consider "pts = IE1_curve" | "pts = IE2_curve" | "pts = IE3_curve"
    | "pts = IE4_curve" by blast
  then have "78/100 \<le> e \<and> e \<le> 96/100"
  proof cases
    case 1
    from e [unfolded 1 curve_anchors] show ?thesis by (cases rule: quarters_cases) argo+
  next
    case 2
    from e [unfolded 2 curve_anchors] show ?thesis by (cases rule: quarters_cases) argo+
  next
    case 3
    from e [unfolded 3 curve_anchors] show ?thesis by (cases rule: quarters_cases) argo+
  next
    case 4
    from e [unfolded 4 curve_anchors] show ?thesis by (cases rule: quarters_cases) argo+
  qed
  with e show ?thesis by blast
qed

lemma get_efficiency_bounds:
  "\<exists>e. get_efficiency c lf = Inr e \<and> 78/100 \<le> e \<and> e \<le> 96/100"
  unfolding get_efficiency_def efficiency_curve_cases bind_r_simps
  by (rule efficiency_interpolate_bounds) simp

lemma vfd_savings_fraction_bounds:
  "\<exists>s. vfd_savings_fraction lf = Inr s \<and> 0 \<le> s \<and> s \<le> 40/100"
proof -
  obtain s where s: "interpolate vfd_savings_curve lf = Inr s"
    unfolding curve_anchors using interpolate_quarters_total by blast
  then have "0 \<le> s \<and> s \<le> 40/100"
    unfolding curve_anchors by (cases rule: quarters_cases) argo+
  with s show ?thesis unfolding vfd_savings_fraction_def by blast
qed

lemma motor_cost_lookups:
  "dict_index MOTOR_COSTS ''IE4'' = Inr 85" "dict_index MOTOR_COSTS ''IE2'' = Inr 50"
  by (simp_all add: dict_index_def MOTOR_COSTS_def)

text \<open>The locals of one pass, once the two efficiencies are known.\<close>

lemma motor_locals_of_eq:
  assumes "get_efficiency (current_class m) (load_factor m) = Inr ceff"
    and "get_efficiency ''IE4'' (load_factor m) = Inr i4eff"
  shows "motor_locals_of m total_hours electricity_cost =
     (let cenergy = rating m * load_factor m * real_of_int total_hours * real_of_int (quantity m)
      in Inr \<lparr>current_eff = ceff, current_power = rating m * load_factor m,
          current_energy = cenergy,
          current_input = cenergy / ceff,
          ie4_eff = i4eff,
          ie4_input = cenergy / i4eff,
          energy_savings_motor = cenergy / ceff - cenergy / i4eff,
          cost_savings_motor = (cenergy / ceff - cenergy / i4eff) * electricity_cost,
          upgrade_cost = rating m * real_of_int (quantity m) *
             real_of_int (85 - dict_get MOTOR_COSTS (current_class m) 50)\<rparr>)"
proof -
  from get_efficiency_bounds [of "current_class m" "load_factor m"] assms(1)
  have c: "ceff \<noteq> 0" by auto
  from get_efficiency_bounds [of "''IE4''" "load_factor m"] assms(2)
  have i: "i4eff \<noteq> 0" by auto
  show ?thesis
    unfolding motor_locals_of_def assms bind_r_simps Let_def fdiv_def motor_cost_lookups
    using c i by (simp add: bind_r_simps)
qed

lemma motor_locals_of_total:
  "\<exists>l. motor_locals_of m total_hours electricity_cost = Inr l \<and>
       upgrade_cost l = rating m * real_of_int (quantity m) *
             real_of_int (85 - dict_get MOTOR_COSTS (current_class m) 50) \<and>
       current_energy l =
         rating m * load_factor m * real_of_int total_hours * real_of_int (quantity m)"
proof -
  obtain ceff where c: "get_efficiency (current_class m) (load_factor m) = Inr ceff"
    using get_efficiency_bounds by blast
  obtain i4eff where i: "get_efficiency ''IE4'' (load_factor m) = Inr i4eff"
    using get_efficiency_bounds by blast
  show ?thesis
    unfolding motor_locals_of_eq [OF c i] Let_def by simp
qed

lemma evaluate_upgrade_total:
  "\<exists>l. motor_locals_of m total_hours electricity_cost = Inr l \<and>
       evaluate_upgrade i m total_hours electricity_cost = Inr (motor_upgrade_entry i m l)"
proof -
  obtain l where "motor_locals_of m total_hours electricity_cost = Inr l"
    using motor_locals_of_total by blast
  then show ?thesis by (simp add: evaluate_upgrade_def bind_r_simps)
qed

lemma evaluate_vfd_eq:
  assumes "vfd_savings_fraction (load_factor m) = Inr s"
  shows "evaluate_vfd i m total_hours electricity_cost =
    (let saved = rating m * load_factor m * real_of_int (total_hours * quantity m) * s;
         vcost = rating m * real_of_int (quantity m) * 100
     in Inr \<lparr>vfd_motor_id = i + 1, vfd_rating = rating m, vfd_quantity = quantity m,
           vfd_energy_savings = saved, vfd_cost_savings = saved * electricity_cost,
           vfd_cost = vcost,
           vfd_payback_years =
             (if saved * electricity_cost > 0 then vcost / (saved * electricity_cost) else 999),
           vfd_savings_pct = s * 100\<rparr>)"
  by (simp add: evaluate_vfd_def calculate_vfd_savings_def assms bind_r_simps Let_def)

lemma evaluate_vfd_total: "\<exists>v. evaluate_vfd i m total_hours electricity_cost = Inr v"
proof -
  obtain s where "vfd_savings_fraction (load_factor m) = Inr s"
    using vfd_savings_fraction_bounds by blast
  then show ?thesis by (simp add: evaluate_vfd_eq Let_def)
qed

subsection \<open>The worked example of the motor upgrade\<close>

lemma textile_locals:
  "motor_locals_of default_textile_motor_1 (300 * 2 * 8) 0.12 =
     Inr \<lparr>current_eff = 0.90, current_power = 11.25, current_energy = 432000,
          current_input = 480000, ie4_eff = 0.95, ie4_input = 8640000 / 19,
          energy_savings_motor = 480000 / 19, cost_savings_motor = 57600 / 19,
          upgrade_cost = 15 * 8 * (85 - 50)\<rparr>"
proof -
  have c: "get_efficiency (current_class default_textile_motor_1)
             (load_factor default_textile_motor_1) = Inr (9/10)"
    by (simp add: default_textile_motor_1_def get_efficiency_def efficiency_curve_cases
        bind_r_simps curve_anchors interpolate_quarters)
  have i: "get_efficiency ''IE4'' (load_factor default_textile_motor_1) = Inr (19/20)"
    by (simp add: default_textile_motor_1_def get_efficiency_def efficiency_curve_cases
        bind_r_simps curve_anchors interpolate_quarters)
  show ?thesis
    unfolding motor_locals_of_eq [OF c i]
    by (simp add: default_textile_motor_1_def dict_get_def MOTOR_COSTS_def)
qed

text \<open>
  C1: for the motor group of rating 15 kW, quantity 8, load factor 0.75 and class IE2, with
  4800 annual hours and 0.12 per kWh, the pass computes the efficiencies 0.90 and 0.95, the
  shaft energy 432000, the input energies 480000 and 454736.84 (to the cent), the savings
  25263.16 kWh and 3031.58, the upgrade cost 15 * 8 * (85 - 50) = 4200 and the payback 1.39
  years (to two decimals); the payback is at most 2, so the recommendation is listed with
  priority High.
\<close>

theorem textile_example_upgrade:
  "\<exists>l u r.
     motor_locals_of default_textile_motor_1 (300 * 2 * 8) 0.12 = Inr l \<and>
     evaluate_upgrade 0 default_textile_motor_1 (300 * 2 * 8) 0.12 = Inr u \<and>
     motor_recs [u] = Inr [r] \<and>
     current_eff l = 0.90 \<and> ie4_eff l = 0.95 \<and>
     current_energy l = 432000 \<and> current_input l = 480000 \<and>
     \<bar>ie4_input l - 454736.84\<bar> < 0.005 \<and>
     mu_energy_savings u = energy_savings_motor l \<and> \<bar>mu_energy_savings u - 25263.16\<bar> < 0.005 \<and>
     mu_cost_savings u = cost_savings_motor l \<and> \<bar>mu_cost_savings u - 3031.58\<bar> < 0.005 \<and>
     upgrade_cost l = 15 * 8 * (85 - 50) \<and> mu_upgrade_cost u = 4200 \<and>
     \<bar>mu_payback_years u - 1.39\<bar> < 0.005 \<and> mu_payback_years u \<le> 2 \<and>
     rec_payback r = mu_payback_years u \<and> rec_priority r = ''High'' \<and>
     rec_type r = ''Motor Upgrade''"
proof -
  note l = textile_locals
  have u: "evaluate_upgrade 0 default_textile_motor_1 (300 * 2 * 8) 0.12 =
    Inr \<lparr>mu_motor_id = 1, mu_rating = 15, mu_quantity = 8, mu_current_class = ''IE2'',
         mu_energy_savings = 480000 / 19, mu_cost_savings = 57600 / 19,
         mu_upgrade_cost = 4200, mu_payback_years = 133 / 96\<rparr>"
    unfolding evaluate_upgrade_def l bind_r_simps
    by (simp add: motor_upgrade_entry_def default_textile_motor_1_def)
  show ?thesis
    unfolding l u by (simp add: bind_r_simps motor_rec_def priority_of_def)
qed

subsection \<open>Quantity in the VFD path\<close>

text \<open>
  C2: the saved energy of a VFD result is rating * load factor * annual hours * quantity *
  savings fraction, the quantity entering once: \<^verbatim>\<open>calculate_vfd_savings\<close> receives the
  hours already multiplied by the quantity and multiplies by no quantity itself, so its
  base energy is the \<^verbatim>\<open>current_energy\<close> of the upgrade path.
\<close>

theorem vfd_quantity_once:
  "\<exists>s l v.
     vfd_savings_fraction (load_factor m) = Inr s \<and>
     motor_locals_of m total_hours electricity_cost = Inr l \<and>
     evaluate_vfd i m total_hours electricity_cost = Inr v \<and>
     calculate_vfd_savings (load_factor m) (rating m) (real_of_int (total_hours * quantity m))
       electricity_cost = Inr (vfd_energy_savings v, vfd_cost_savings v, vfd_savings_pct v) \<and>
     vfd_energy_savings v =
       rating m * load_factor m * real_of_int total_hours * real_of_int (quantity m) * s \<and>
     current_energy l =
       rating m * load_factor m * real_of_int total_hours * real_of_int (quantity m) \<and>
     vfd_energy_savings v = current_energy l * s"
proof -
  obtain s where s: "vfd_savings_fraction (load_factor m) = Inr s"
    using vfd_savings_fraction_bounds by blast
  obtain l where l: "motor_locals_of m total_hours electricity_cost = Inr l"
    "current_energy l =
       rating m * load_factor m * real_of_int total_hours * real_of_int (quantity m)"
    using motor_locals_of_total by blast
  show ?thesis
    using s l by (simp add: evaluate_vfd_eq calculate_vfd_savings_def bind_r_simps Let_def)
qed

subsection \<open>Upgrade cost of an IE1 motor\<close>

lemma IE1_below_IE2:
  "\<exists>e1 e2. get_efficiency ''IE1'' lf = Inr e1 \<and> get_efficiency ''IE2'' lf = Inr e2 \<and> e1 < e2"
proof (cases lf rule: regions)
  case below
  show ?thesis unfolding get_efficiency_known curve_anchors quarters_region(1) [OF below]
    by (intro exI conjI, rule refl, rule refl) argo
next
  case first
  show ?thesis unfolding get_efficiency_known curve_anchors quarters_region(2) [OF first]
    by (intro exI conjI, rule refl, rule refl) (use first in argo)
next
  case second
  show ?thesis unfolding get_efficiency_known curve_anchors quarters_region(3) [OF second]
    by (intro exI conjI, rule refl, rule refl) (use second in argo)
next
  case third
  show ?thesis unfolding get_efficiency_known curve_anchors quarters_region(4) [OF third]
    by (intro exI conjI, rule refl, rule refl) (use third in argo)
next
  case above
  show ?thesis unfolding get_efficiency_known curve_anchors quarters_region(5) [OF above]
    by (intro exI conjI, rule refl, rule refl) argo
qed

text \<open>
  C10: \<^verbatim>\<open>MOTOR_COSTS\<close> has no entry for IE1, so the upgrade cost of an IE1 motor group is
  computed with the unit cost of IE2: the stored cost is max (rating * quantity * (85 - 50))
  100, the same as for the group with class IE2, although the IE1 efficiency lies below the
  IE2 efficiency at every load factor.
\<close>

theorem ie1_upgrade_cost_uses_ie2_unit_cost:
  "map_of MOTOR_COSTS ''IE1'' = None \<and>
   (current_class m = ''IE1'' \<longrightarrow>
     (\<exists>l u u2.
        motor_locals_of m total_hours electricity_cost = Inr l \<and>
        upgrade_cost l = rating m * real_of_int (quantity m) * (85 - 50) \<and>
        evaluate_upgrade i m total_hours electricity_cost = Inr u \<and>
        mu_upgrade_cost u = max (rating m * real_of_int (quantity m) * (85 - 50)) 100 \<and>
        evaluate_upgrade i (m\<lparr>current_class := ''IE2''\<rparr>) total_hours electricity_cost = Inr u2 \<and>
        mu_upgrade_cost u2 = mu_upgrade_cost u)) \<and>
   (\<exists>e1 e2. get_efficiency ''IE1'' lf = Inr e1 \<and> get_efficiency ''IE2'' lf = Inr e2 \<and> e1 < e2)"
proof (intro conjI impI)
  show "map_of MOTOR_COSTS ''IE1'' = None" by (simp add: MOTOR_COSTS_def)
next
  assume c: "current_class m = ''IE1''"
  let ?m2 = "m\<lparr>current_class := ''IE2''\<rparr>"
  obtain l where l: "motor_locals_of m total_hours electricity_cost = Inr l"
    "upgrade_cost l = rating m * real_of_int (quantity m) *
             real_of_int (85 - dict_get MOTOR_COSTS (current_class m) 50)"
    using motor_locals_of_total by blast
  obtain l2 where l2: "motor_locals_of ?m2 total_hours electricity_cost = Inr l2"
    "upgrade_cost l2 = rating ?m2 * real_of_int (quantity ?m2) *
             real_of_int (85 - dict_get MOTOR_COSTS (current_class ?m2) 50)"
    using motor_locals_of_total by blast
  have "upgrade_cost l = rating m * real_of_int (quantity m) * (85 - 50)"
    using l(2) c by (simp add: dict_get_def MOTOR_COSTS_def)
  moreover have "upgrade_cost l2 = rating m * real_of_int (quantity m) * (85 - 50)"
    using l2(2) by (simp add: dict_get_def MOTOR_COSTS_def)
  ultimately show "\<exists>l u u2.
        motor_locals_of m total_hours electricity_cost = Inr l \<and>
        upgrade_cost l = rating m * real_of_int (quantity m) * (85 - 50) \<and>
        evaluate_upgrade i m total_hours electricity_cost = Inr u \<and>
        mu_upgrade_cost u = max (rating m * real_of_int (quantity m) * (85 - 50)) 100 \<and>
        evaluate_upgrade i ?m2 total_hours electricity_cost = Inr u2 \<and>
        mu_upgrade_cost u2 = mu_upgrade_cost u"
    using l(1) l2(1)
    by (simp add: evaluate_upgrade_def bind_r_simps motor_upgrade_entry_def)
next
  show "\<exists>e1 e2. get_efficiency ''IE1'' lf = Inr e1 \<and> get_efficiency ''IE2'' lf = Inr e2 \<and> e1 < e2"
    by (rule IE1_below_IE2)
qed

theorem ie1_upgrade_cost_witness:
  "current_class default_textile_motor_4 = ''IE1'' \<and>
   (\<exists>u. evaluate_upgrade 3 default_textile_motor_4 4800 0.12 = Inr u \<and> mu_upgrade_cost u = 3850)"
  using ie1_upgrade_cost_uses_ie2_unit_cost [of default_textile_motor_4 4800 "0.12" 3 1]
  by (auto simp add: default_textile_motor_4_def)

subsection \<open>The simulation pass returns for every inventory\<close>

lemma py_sum_acc: "foldl (+) a xs = a + sum_list (xs :: real list)"
  by (induction xs arbitrary: a) simp_all

lemma py_sum_eq: "py_sum xs = sum_list xs"
  by (simp add: py_sum_def py_sum_acc)

lemma motor_step_total:
  "\<exists>u st'. evaluate_upgrade i m th ec = Inr u \<and> motor_step i m th ec st = Inr st' \<and>
     ls_motor_upgrades st' = ls_motor_upgrades st @ [u] \<and>
     (if vfd_applicable m
      then \<exists>v. evaluate_vfd i m th ec = Inr v \<and> ls_vfd_savings st' = ls_vfd_savings st @ [v]
      else ls_vfd_savings st' = ls_vfd_savings st)"
proof -
  obtain u where u: "evaluate_upgrade i m th ec = Inr u"
    using evaluate_upgrade_total by blast
  obtain v where v: "evaluate_vfd i m th ec = Inr v"
    using evaluate_vfd_total by blast
  show ?thesis
    by (simp add: motor_step_def u v bind_r_simps Let_def)
qed

lemma evaluate_upgrade_fields:
  "evaluate_upgrade i m th ec = Inr u \<Longrightarrow>
     mu_motor_id u = Suc i \<and> mu_rating u = rating m \<and> mu_quantity u = quantity m \<and>
     mu_current_class u = current_class m"
  using evaluate_upgrade_total [of m th ec i]
  by (auto simp add: motor_upgrade_entry_def)

lemma motor_loop_total:
  "\<exists>st'. motor_loop i ms th ec st = Inr st' \<and>
     map mu_motor_id (ls_motor_upgrades st') =
       map mu_motor_id (ls_motor_upgrades st) @ map Suc [i..<i + length ms] \<and>
     map mu_rating (ls_motor_upgrades st') = map mu_rating (ls_motor_upgrades st) @ map rating ms \<and>
     length (ls_vfd_savings st') = length (ls_vfd_savings st) + length (filter vfd_applicable ms)"
proof (induction ms arbitrary: i st)
  case Nil
  show ?case by simp
next
  case (Cons m ms)
  obtain u st1 where s: "evaluate_upgrade i m th ec = Inr u"
    "motor_step i m th ec st = Inr st1"
    "ls_motor_upgrades st1 = ls_motor_upgrades st @ [u]"
    "if vfd_applicable m
      then \<exists>v. evaluate_vfd i m th ec = Inr v \<and> ls_vfd_savings st1 = ls_vfd_savings st @ [v]
      else ls_vfd_savings st1 = ls_vfd_savings st"
    using motor_step_total by blast
  have len: "length (ls_vfd_savings st1) =
      length (ls_vfd_savings st) + (if vfd_applicable m then 1 else 0)"
    using s(4) by (auto split: if_splits)
  obtain st' where r: "motor_loop (Suc i) ms th ec st1 = Inr st'"
    "map mu_motor_id (ls_motor_upgrades st') =
       map mu_motor_id (ls_motor_upgrades st1) @ map Suc [Suc i..<Suc i + length ms]"
    "map mu_rating (ls_motor_upgrades st') = map mu_rating (ls_motor_upgrades st1) @ map rating ms"
    "length (ls_vfd_savings st') = length (ls_vfd_savings st1) + length (filter vfd_applicable ms)"
    using Cons.IH by blast
  have ids: "map Suc [i..<i + length (m # ms)] = Suc i # map Suc [Suc i..<Suc i + length ms]"
    by (simp add: upt_conv_Cons del: upt_Suc)
  note f = evaluate_upgrade_fields [OF s(1)]
  show ?case
  proof (intro exI [of _ st'] conjI)
    show "motor_loop i (m # ms) th ec st = Inr st'"
      by (simp add: s(2) bind_r_simps r(1))
    show "map mu_motor_id (ls_motor_upgrades st') =
       map mu_motor_id (ls_motor_upgrades st) @ map Suc [i..<i + length (m # ms)]"
      unfolding ids r(2) s(3) using f by simp
    show "map mu_rating (ls_motor_upgrades st') =
       map mu_rating (ls_motor_upgrades st) @ map rating (m # ms)"
      unfolding r(3) s(3) using f by simp
    show "length (ls_vfd_savings st') =
       length (ls_vfd_savings st) + length (filter vfd_applicable (m # ms))"
      unfolding r(4) len by simp
  qed
qed


lemma run_simulation_total:
  "\<exists>st. motor_loop 0 motors th ec init_state = Inr st \<and>
     run_simulation motors lc od th ec =
       Inr \<lparr>motor_upgrades = ls_motor_upgrades st, vfd_savings = ls_vfd_savings st,
            lighting_retrofit = evaluate_lighting lc od ec\<rparr>"
proof -
  obtain st where "motor_loop 0 motors th ec init_state = Inr st"
    using motor_loop_total by blast
  then show ?thesis by (simp add: run_simulation_def bind_r_simps)
qed

lemma motor_loop_results:
  "\<exists>st' us vs. motor_loop i ms th ec st = Inr st' \<and>
     ls_motor_upgrades st' = ls_motor_upgrades st @ us \<and>
     list_all2 (\<lambda>(k, m) u. evaluate_upgrade k m th ec = Inr u) (zip [i..<i + length ms] ms) us \<and>
     ls_vfd_savings st' = ls_vfd_savings st @ vs \<and>
     list_all2 (\<lambda>(k, m) v. evaluate_vfd k m th ec = Inr v)
       (filter (\<lambda>(k, m). vfd_applicable m) (zip [i..<i + length ms] ms)) vs"
proof (induction ms arbitrary: i st)
  case Nil
  show ?case by simp
next
  case (Cons m ms)
  obtain u st1 where s: "evaluate_upgrade i m th ec = Inr u"
    "motor_step i m th ec st = Inr st1"
    "ls_motor_upgrades st1 = ls_motor_upgrades st @ [u]"
    "if vfd_applicable m
      then \<exists>v. evaluate_vfd i m th ec = Inr v \<and> ls_vfd_savings st1 = ls_vfd_savings st @ [v]
      else ls_vfd_savings st1 = ls_vfd_savings st"
    using motor_step_total by blast
  obtain st' us vs where r: "motor_loop (Suc i) ms th ec st1 = Inr st'"
    "ls_motor_upgrades st' = ls_motor_upgrades st1 @ us"
    "list_all2 (\<lambda>(k, m) u. evaluate_upgrade k m th ec = Inr u)
       (zip [Suc i..<Suc i + length ms] ms) us"
    "ls_vfd_savings st' = ls_vfd_savings st1 @ vs"
    "list_all2 (\<lambda>(k, m) v. evaluate_vfd k m th ec = Inr v)
       (filter (\<lambda>(k, m). vfd_applicable m) (zip [Suc i..<Suc i + length ms] ms)) vs"
    using Cons.IH by blast
  have z: "zip [i..<i + length (m # ms)] (m # ms) = (i, m) # zip [Suc i..<Suc i + length ms] ms"
    by (simp add: upt_conv_Cons del: upt_Suc)
  have run: "motor_loop i (m # ms) th ec st = Inr st'"
    by (simp add: s(2) bind_r_simps r(1))
  have ups: "ls_motor_upgrades st' = ls_motor_upgrades st @ (u # us)"
    by (simp add: r(2) s(3))
  have ups2: "list_all2 (\<lambda>(k, m) u. evaluate_upgrade k m th ec = Inr u)
       (zip [i..<i + length (m # ms)] (m # ms)) (u # us)"
    unfolding z using s(1) r(3) by simp
  show ?case
  proof (cases "vfd_applicable m")
    case True
    then obtain v where v: "evaluate_vfd i m th ec = Inr v"
      "ls_vfd_savings st1 = ls_vfd_savings st @ [v]"
      using s(4) by auto
    have "ls_vfd_savings st' = ls_vfd_savings st @ (v # vs)"
      by (simp add: r(4) v(2))
    moreover have "list_all2 (\<lambda>(k, m) v. evaluate_vfd k m th ec = Inr v)
       (filter (\<lambda>(k, m). vfd_applicable m) (zip [i..<i + length (m # ms)] (m # ms))) (v # vs)"
      unfolding z using True v(1) r(5) by simp
    ultimately show ?thesis using run ups ups2 by blast
  next
    case False
    then have "ls_vfd_savings st' = ls_vfd_savings st @ vs"
      using s(4) by (simp add: r(4))
    moreover have "list_all2 (\<lambda>(k, m) v. evaluate_vfd k m th ec = Inr v)
       (filter (\<lambda>(k, m). vfd_applicable m) (zip [i..<i + length (m # ms)] (m # ms))) vs"
      unfolding z using False r(5) by simp
    ultimately show ?thesis using run ups ups2 by blast
  qed
qed

lemma evaluate_vfd_fields:
  "evaluate_vfd i m th ec = Inr v \<Longrightarrow>
     vfd_motor_id v = Suc i \<and> vfd_rating v = rating m \<and> vfd_quantity v = quantity m"
  by (auto simp add: evaluate_vfd_def bind_r_def Let_def split: sum.splits prod.splits)

text \<open>
  C3, as the code has it: the engine validates nothing and no motor group is rejected. For
  every inventory whose ints convert to floats, whatever the load factors and ratings of
  its motor groups, the pass raises nothing and returns the complete results: for every
  motor group, in input order, the upgrade result evaluated for that group, with its id,
  rating, quantity and class; for every VFD-applicable group, in input order, the VFD
  result evaluated for that group; and the lighting result.
\<close>

theorem no_motor_group_is_rejected:
  assumes "conversions_fit motors lc od th"
  shows "\<exists>res. run_simulation motors lc od th ec = Inr res \<and>
     list_all2
       (\<lambda>(i, m) u. evaluate_upgrade i m th ec = Inr u \<and> mu_motor_id u = Suc i \<and>
          mu_rating u = rating m \<and> mu_quantity u = quantity m \<and>
          mu_current_class u = current_class m)
       (zip [0..<length motors] motors) (motor_upgrades res) \<and>
     list_all2
       (\<lambda>(i, m) v. evaluate_vfd i m th ec = Inr v \<and> vfd_motor_id v = Suc i \<and>
          vfd_rating v = rating m \<and> vfd_quantity v = quantity m)
       (filter (\<lambda>(i, m). vfd_applicable m) (zip [0..<length motors] motors))
       (vfd_savings res) \<and>
     lighting_retrofit res = evaluate_lighting lc od ec"
proof -
  obtain st us vs where st: "motor_loop 0 motors th ec init_state = Inr st"
    "ls_motor_upgrades st = ls_motor_upgrades init_state @ us"
    "list_all2 (\<lambda>(k, m) u. evaluate_upgrade k m th ec = Inr u)
       (zip [0..<0 + length motors] motors) us"
    "ls_vfd_savings st = ls_vfd_savings init_state @ vs"
    "list_all2 (\<lambda>(k, m) v. evaluate_vfd k m th ec = Inr v)
       (filter (\<lambda>(k, m). vfd_applicable m) (zip [0..<0 + length motors] motors)) vs"
    using motor_loop_results by blast
  have us: "list_all2
       (\<lambda>(i, m) u. evaluate_upgrade i m th ec = Inr u \<and> mu_motor_id u = Suc i \<and>
          mu_rating u = rating m \<and> mu_quantity u = quantity m \<and>
          mu_current_class u = current_class m)
       (zip [0..<length motors] motors) us"
    using st(3) by (auto elim!: list_all2_mono dest: evaluate_upgrade_fields)
  have vs: "list_all2
       (\<lambda>(i, m) v. evaluate_vfd i m th ec = Inr v \<and> vfd_motor_id v = Suc i \<and>
          vfd_rating v = rating m \<and> vfd_quantity v = quantity m)
       (filter (\<lambda>(i, m). vfd_applicable m) (zip [0..<length motors] motors)) vs"
    using st(5) by (auto elim!: list_all2_mono dest: evaluate_vfd_fields)
  have run: "run_simulation motors lc od th ec =
      Inr \<lparr>motor_upgrades = ls_motor_upgrades st, vfd_savings = ls_vfd_savings st,
           lighting_retrofit = evaluate_lighting lc od ec\<rparr>"
    unfolding run_simulation_def st(1) bind_r_simps ..
  have lists: "ls_motor_upgrades st = us" "ls_vfd_savings st = vs"
    using st(2,4) by (simp_all add: init_state_def)
  show ?thesis
    unfolding run lists using us vs by simp
qed

lemma small_fits_float: "\<bar>n\<bar> \<le> 2 ^ 64 \<Longrightarrow> fits_float n"
proof -
  have "(2::int) ^ 64 < 2 ^ 970" by (rule power_strict_increasing) simp_all
  moreover have "(2::int) ^ 1024 = 2 ^ 970 * 2 ^ 54" by (simp flip: power_add)
  moreover have "(2::int) * 2 ^ 970 \<le> 2 ^ 970 * 2 ^ 54" by simp
  ultimately show "\<bar>n\<bar> \<le> 2 ^ 64 \<Longrightarrow> fits_float n"
    unfolding fits_float_def by linarith
qed

theorem no_motor_group_is_rejected_witness:
  "conversions_fit
     [\<lparr>rating = 15, quantity = 8, load_factor = 1.5, current_class = ''IE2'',
       vfd_applicable = False\<rparr>,
      \<lparr>rating = 0, quantity = 1, load_factor = 0.5, current_class = ''IE3'',
       vfd_applicable = True\<rparr>] default_textile_lighting 300 4800 \<and>
   (\<exists>res. run_simulation
     [\<lparr>rating = 15, quantity = 8, load_factor = 1.5, current_class = ''IE2'',
       vfd_applicable = False\<rparr>,
      \<lparr>rating = 0, quantity = 1, load_factor = 0.5, current_class = ''IE3'',
       vfd_applicable = True\<rparr>] default_textile_lighting 300 4800 0.12 = Inr res \<and>
     map mu_motor_id (motor_upgrades res) = [1, 2] \<and>
     map mu_rating (motor_upgrades res) = [15, 0] \<and>
     map vfd_motor_id (vfd_savings res) = [2])"
proof -
  let ?ms = "[\<lparr>rating = 15, quantity = 8, load_factor = 1.5, current_class = ''IE2'',
       vfd_applicable = False\<rparr>,
      \<lparr>rating = 0, quantity = 1, load_factor = 0.5, current_class = ''IE3'',
       vfd_applicable = True\<rparr>]"
  have fit: "conversions_fit ?ms default_textile_lighting 300 4800"
    by (simp add: conversions_fit_def default_textile_lighting_def LED_cost_per_unit_def
        small_fits_float)
  have z: "zip [0..<length ?ms] ?ms = [(0, ?ms ! 0), (1, ?ms ! 1)]"
    by (simp add: upt_conv_Cons del: upt_Suc)
  show ?thesis
    using fit no_motor_group_is_rejected [OF fit, of "0.12", unfolded z]
    by (auto simp add: list_all2_Cons1)
qed

text \<open>
  C3 as stated fails: a run with a load factor of 1.5 and a rating of 0 raises nothing and
  returns a result for both groups.
\<close>

theorem invalid_motor_group_counterexample:
  "run_simulation
     [\<lparr>rating = 15, quantity = 8, load_factor = 1.5, current_class = ''IE2'',
       vfd_applicable = False\<rparr>,
      \<lparr>rating = 0, quantity = 1, load_factor = 0.5, current_class = ''IE3'',
       vfd_applicable = True\<rparr>]
     \<lparr>num_fixtures = 200, wattage_per = 40, daily_hours = 16, led_wattage = 16\<rparr>
     300 4800 0.12 =
   Inr \<lparr>motor_upgrades =
          [\<lparr>mu_motor_id = 1, mu_rating = 15, mu_quantity = 8, mu_current_class = ''IE2'',
            mu_energy_savings = 4500000 / 91, mu_cost_savings = 540000 / 91,
            mu_upgrade_cost = 4200, mu_payback_years = 637 / 900\<rparr>,
           \<lparr>mu_motor_id = 2, mu_rating = 0, mu_quantity = 1, mu_current_class = ''IE3'',
            mu_energy_savings = 0, mu_cost_savings = 0, mu_upgrade_cost = 100,
            mu_payback_years = 999\<rparr>],
        vfd_savings =
          [\<lparr>vfd_motor_id = 2, vfd_rating = 0, vfd_quantity = 1, vfd_energy_savings = 0,
            vfd_cost_savings = 0, vfd_cost = 0, vfd_payback_years = 999,
            vfd_savings_pct = 25\<rparr>],
        lighting_retrofit =
          \<lparr>lt_current_energy = 38400, lt_led_energy = 15360, lt_energy_savings = 23040,
           lt_cost_savings = 13824 / 5, lt_retrofit_cost = 30000,
           lt_payback_years = 3125 / 288\<rparr>\<rparr>"
  by (simp add: run_simulation_def motor_step_def evaluate_upgrade_def evaluate_vfd_def
      motor_locals_of_def motor_upgrade_entry_def calculate_vfd_savings_def
      vfd_savings_fraction_def get_efficiency_known get_efficiency_def efficiency_curve_cases
      curve_anchors interpolate_quarters
      fdiv_def dict_index_def dict_get_def MOTOR_COSTS_def bind_r_simps init_state_def
      evaluate_lighting_def calculate_lighting_energy_def LED_cost_per_unit_def Let_def)

subsection \<open>Payback\<close>

lemma motor_loop_invariant:
  assumes P: "\<And>i m u. m \<in> A \<Longrightarrow> evaluate_upgrade i m th ec = Inr u \<Longrightarrow> P u"
    and Q: "\<And>i m v. m \<in> A \<Longrightarrow> evaluate_vfd i m th ec = Inr v \<Longrightarrow> Q v"
  shows "set ms \<subseteq> A \<Longrightarrow> \<forall>u\<in>set (ls_motor_upgrades st). P u \<Longrightarrow>
     \<forall>v\<in>set (ls_vfd_savings st). Q v \<Longrightarrow> motor_loop i ms th ec st = Inr st' \<Longrightarrow>
     (\<forall>u\<in>set (ls_motor_upgrades st'). P u) \<and> (\<forall>v\<in>set (ls_vfd_savings st'). Q v)"
proof (induction ms arbitrary: i st)
  case Nil
  then show ?case by simp
next
  case (Cons m ms)
  obtain u st1 where s: "evaluate_upgrade i m th ec = Inr u"
    "motor_step i m th ec st = Inr st1"
    "ls_motor_upgrades st1 = ls_motor_upgrades st @ [u]"
    "if vfd_applicable m
      then \<exists>v. evaluate_vfd i m th ec = Inr v \<and> ls_vfd_savings st1 = ls_vfd_savings st @ [v]
      else ls_vfd_savings st1 = ls_vfd_savings st"
    using motor_step_total by blast
  have m: "m \<in> A" and ms: "set ms \<subseteq> A"
    using Cons.prems(1) by simp_all
  have next_loop: "motor_loop (Suc i) ms th ec st1 = Inr st'"
    using Cons.prems(4) by (simp add: s(2) bind_r_simps)
  have "P u" using P [OF m s(1)] .
  then have p1: "\<forall>u\<in>set (ls_motor_upgrades st1). P u"
    using Cons.prems(2) by (simp add: s(3))
  have q1: "\<forall>v\<in>set (ls_vfd_savings st1). Q v"
  proof (cases "vfd_applicable m")
    case True
    then obtain v where v: "evaluate_vfd i m th ec = Inr v"
      "ls_vfd_savings st1 = ls_vfd_savings st @ [v]"
      using s(4) by auto
    have "Q v" using Q [OF m v(1)] .
    then show ?thesis using Cons.prems(3) by (simp add: v(2))
  next
    case False
    then show ?thesis using s(4) Cons.prems(3) by simp
  qed
  show ?case
    by (rule Cons.IH [OF ms p1 q1 next_loop])
qed

lemma upgrade_payback:
  assumes "evaluate_upgrade i m th ec = Inr u"
  shows "mu_payback_years u =
           (if mu_cost_savings u > 0 then mu_upgrade_cost u / mu_cost_savings u else 999) \<and>
         0 < mu_payback_years u"
proof -
  have eq: "mu_payback_years u =
           (if mu_cost_savings u > 0 then mu_upgrade_cost u / mu_cost_savings u else 999)"
    and cost: "100 \<le> mu_upgrade_cost u"
    using assms
    by (auto simp add: evaluate_upgrade_def motor_upgrade_entry_def bind_r_def
        split: sum.splits)
  have "0 < mu_payback_years u"
  proof (cases "mu_cost_savings u > 0")
    case True
    have "0 < mu_upgrade_cost u" using cost by simp
    then have "0 < mu_upgrade_cost u / mu_cost_savings u" using True by (rule divide_pos_pos)
    then show ?thesis using eq True by simp
  next
    case False
    then show ?thesis using eq by simp
  qed
  with eq show ?thesis by blast
qed

lemma vfd_payback:
  assumes "evaluate_vfd i m th ec = Inr v"
  shows "vfd_payback_years v =
           (if vfd_cost_savings v > 0 then vfd_cost v / vfd_cost_savings v else 999) \<and>
         (0 < rating m \<and> 1 \<le> quantity m \<longrightarrow> 0 < vfd_payback_years v)"
proof -
  have eq: "vfd_payback_years v =
           (if vfd_cost_savings v > 0 then vfd_cost v / vfd_cost_savings v else 999)"
    and cost: "vfd_cost v = rating m * real_of_int (quantity m) * 100"
    using assms
    by (auto simp add: evaluate_vfd_def bind_r_def Let_def split: sum.splits prod.splits)
  have "0 < vfd_payback_years v" if "0 < rating m" "1 \<le> quantity m"
  proof (cases "vfd_cost_savings v > 0")
    case True
    have "0 < vfd_cost v" unfolding cost using that by simp
    then have "0 < vfd_cost v / vfd_cost_savings v" using True by (rule divide_pos_pos)
    then show ?thesis using eq True by simp
  next
    case False
    then show ?thesis using eq by simp
  qed
  with eq show ?thesis by blast
qed

lemma lighting_payback:
  "lt_payback_years (evaluate_lighting lc od ec) =
     (if lt_cost_savings (evaluate_lighting lc od ec) > 0
      then lt_retrofit_cost (evaluate_lighting lc od ec) /
           lt_cost_savings (evaluate_lighting lc od ec)
      else 999) \<and>
   (1 \<le> num_fixtures lc \<longrightarrow> 0 < lt_payback_years (evaluate_lighting lc od ec))"
  by (simp add: evaluate_lighting_def Let_def LED_cost_per_unit_def divide_pos_pos)

text \<open>
  C5, as the code has it: a run raises no division by zero, and returns when its ints
  convert to floats. In the results of a run, every payback (motor upgrade, VFD, lighting)
  is the stored investment divided by the cost savings when the cost savings are positive,
  and 999 otherwise. Every motor-upgrade payback is positive; the VFD paybacks are positive
  when the ratings are positive and the quantities at least 1, and the lighting payback is
  when there is at least one fixture.
\<close>

theorem payback_guard:
  "run_simulation motors lc od th ec \<noteq> Inl ZeroDivisionError \<and>
   (conversions_fit motors lc od th \<longrightarrow> (\<exists>res. run_simulation motors lc od th ec = Inr res)) \<and>
   (\<forall>res. run_simulation motors lc od th ec = Inr res \<longrightarrow>
     (\<forall>u\<in>set (motor_upgrades res).
        mu_payback_years u =
          (if mu_cost_savings u > 0 then mu_upgrade_cost u / mu_cost_savings u else 999) \<and>
        0 < mu_payback_years u) \<and>
     (\<forall>v\<in>set (vfd_savings res).
        vfd_payback_years v =
          (if vfd_cost_savings v > 0 then vfd_cost v / vfd_cost_savings v else 999) \<and>
        ((\<forall>m\<in>set motors. 0 < rating m \<and> 1 \<le> quantity m) \<longrightarrow> 0 < vfd_payback_years v)) \<and>
     lt_payback_years (lighting_retrofit res) =
       (if lt_cost_savings (lighting_retrofit res) > 0
        then lt_retrofit_cost (lighting_retrofit res) / lt_cost_savings (lighting_retrofit res)
        else 999) \<and>
     (1 \<le> num_fixtures lc \<longrightarrow> 0 < lt_payback_years (lighting_retrofit res)))"
proof -
  let ?P = "\<lambda>u. mu_payback_years u =
          (if mu_cost_savings u > 0 then mu_upgrade_cost u / mu_cost_savings u else 999) \<and>
        0 < mu_payback_years u"
  let ?Q = "\<lambda>v. vfd_payback_years v =
          (if vfd_cost_savings v > 0 then vfd_cost v / vfd_cost_savings v else 999) \<and>
        ((\<forall>m\<in>set motors. 0 < rating m \<and> 1 \<le> quantity m) \<longrightarrow> 0 < vfd_payback_years v)"
  obtain st where st: "motor_loop 0 motors th ec init_state = Inr st"
    "run_simulation motors lc od th ec =
       Inr \<lparr>motor_upgrades = ls_motor_upgrades st, vfd_savings = ls_vfd_savings st,
            lighting_retrofit = evaluate_lighting lc od ec\<rparr>"
    using run_simulation_total by blast
  define res where "res = \<lparr>motor_upgrades = ls_motor_upgrades st,
    vfd_savings = ls_vfd_savings st, lighting_retrofit = evaluate_lighting lc od ec\<rparr>"
  have sel: "ls_motor_upgrades st = motor_upgrades res" "ls_vfd_savings st = vfd_savings res"
    "evaluate_lighting lc od ec = lighting_retrofit res"
    by (simp_all add: res_def)
  have run: "run_simulation motors lc od th ec = Inr res"
    using st(2) by (simp add: res_def)
  have "(\<forall>u\<in>set (ls_motor_upgrades st). ?P u) \<and> (\<forall>v\<in>set (ls_vfd_savings st). ?Q v)"
  proof (rule motor_loop_invariant [where A = "set motors", OF _ _ _ _ _ st(1)])
    show "\<And>i m u. m \<in> set motors \<Longrightarrow> evaluate_upgrade i m th ec = Inr u \<Longrightarrow> ?P u"
      using upgrade_payback by blast
    show "\<And>i m v. m \<in> set motors \<Longrightarrow> evaluate_vfd i m th ec = Inr v \<Longrightarrow> ?Q v"
      using vfd_payback by blast
  qed (simp_all add: init_state_def)
  then have inv: "(\<forall>u\<in>set (motor_upgrades res). ?P u) \<and> (\<forall>v\<in>set (vfd_savings res). ?Q v)"
    unfolding sel .
  note lp = lighting_payback [of lc od ec, unfolded sel]
  have only: "res' = res" if "run_simulation motors lc od th ec = Inr res'" for res'
    using that run by simp
  have no_zero: "run_simulation motors lc od th ec \<noteq> Inl ZeroDivisionError"
    using run by simp
  show ?thesis
    using run inv lp only no_zero by blast
qed

theorem payback_guard_witness:
  "conversions_fit [default_textile_motor_1] default_textile_lighting 300 4800 \<and>
   (0 < rating default_textile_motor_1 \<and> 1 \<le> quantity default_textile_motor_1) \<and>
   1 \<le> num_fixtures default_textile_lighting \<and>
   (\<exists>res. run_simulation [default_textile_motor_1] default_textile_lighting 300 4800 0.12 = Inr res \<and>
      list_all (\<lambda>u. 0 < mu_payback_years u) (motor_upgrades res) \<and>
      list_all (\<lambda>v. 0 < vfd_payback_years v) (vfd_savings res) \<and>
      0 < lt_payback_years (lighting_retrofit res))"
proof -
  have fit: "conversions_fit [default_textile_motor_1] default_textile_lighting 300 4800"
    by (simp add: conversions_fit_def default_textile_motor_1_def default_textile_lighting_def
        LED_cost_per_unit_def small_fits_float)
  have pos: "\<forall>m\<in>set [default_textile_motor_1]. 0 < rating m \<and> 1 \<le> quantity m"
    "1 \<le> num_fixtures default_textile_lighting"
    by (simp_all add: default_textile_motor_1_def default_textile_lighting_def)
  note t = payback_guard [of "[default_textile_motor_1]" default_textile_lighting 300 4800 "0.12"]
  obtain res where res:
    "run_simulation [default_textile_motor_1] default_textile_lighting 300 4800 0.12 = Inr res"
    using t fit by blast
  have "list_all (\<lambda>u. 0 < mu_payback_years u) (motor_upgrades res)"
    "list_all (\<lambda>v. 0 < vfd_payback_years v) (vfd_savings res)"
    "0 < lt_payback_years (lighting_retrofit res)"
    unfolding list_all_iff using t res pos by blast+
  then show ?thesis
    using fit pos res by auto
qed

text \<open>
  C5 as stated fails: the guard tests the cost savings only, and the engine checks no
  range. With a negative rating and a negative load factor the VFD cost is negative and
  the cost savings positive, so the VFD payback is negative; with a negative number of
  fixtures and an LED wattage above the current one, so is the lighting payback.
\<close>

theorem negative_payback_counterexample:
  "run_simulation
     [\<lparr>rating = - 15, quantity = 8, load_factor = - 0.5, current_class = ''IE2'',
       vfd_applicable = True\<rparr>]
     \<lparr>num_fixtures = - 200, wattage_per = 40, daily_hours = 16, led_wattage = 100\<rparr>
     300 4800 0.12 =
   Inr \<lparr>motor_upgrades =
          [\<lparr>mu_motor_id = 1, mu_rating = - 15, mu_quantity = 8, mu_current_class = ''IE2'',
            mu_energy_savings = 10800000 / 451, mu_cost_savings = 1296000 / 451,
            mu_upgrade_cost = 100, mu_payback_years = 451 / 12960\<rparr>],
        vfd_savings =
          [\<lparr>vfd_motor_id = 1, vfd_rating = - 15, vfd_quantity = 8,
            vfd_energy_savings = 115200, vfd_cost_savings = 13824, vfd_cost = - 12000,
            vfd_payback_years = - (125 / 144), vfd_savings_pct = 40\<rparr>],
        lighting_retrofit =
          \<lparr>lt_current_energy = - 38400, lt_led_energy = - 96000, lt_energy_savings = 57600,
           lt_cost_savings = 6912, lt_retrofit_cost = - 30000,
           lt_payback_years = - (625 / 144)\<rparr>\<rparr>"
  by (simp add: run_simulation_def motor_step_def evaluate_upgrade_def evaluate_vfd_def
      motor_locals_of_def motor_upgrade_entry_def calculate_vfd_savings_def
      vfd_savings_fraction_def get_efficiency_known get_efficiency_def efficiency_curve_cases
      curve_anchors interpolate_quarters
      fdiv_def dict_index_def dict_get_def MOTOR_COSTS_def bind_r_simps init_state_def
      evaluate_lighting_def calculate_lighting_energy_def LED_cost_per_unit_def Let_def)

subsection \<open>Totals\<close>

text \<open>
  C7: the totals of a run are the sums of the per-item fields: the total energy savings
  over the motor-upgrade results, the VFD results and the lighting result, the total cost
  savings likewise, and the CO2 reduction is total energy savings * factor / 1000.
\<close>

theorem totals_are_sums:
  "\<exists>res. run_simulation motors lc od th ec = Inr res \<and>
     total_energy_savings res =
       sum_list (map mu_energy_savings (motor_upgrades res)) +
       sum_list (map vfd_energy_savings (vfd_savings res)) +
       lt_energy_savings (lighting_retrofit res) \<and>
     total_cost_savings res =
       sum_list (map mu_cost_savings (motor_upgrades res)) +
       sum_list (map vfd_cost_savings (vfd_savings res)) +
       lt_cost_savings (lighting_retrofit res) \<and>
     co2_reduction res carbon_factor = total_energy_savings res * carbon_factor / 1000"
proof -
  obtain res where "run_simulation motors lc od th ec = Inr res"
    using run_simulation_total by blast
  then show ?thesis
    by (simp add: total_energy_savings_def total_cost_savings_def co2_reduction_def py_sum_eq)
qed

subsection \<open>The look-up on a curve with increasing anchors\<close>
















subsection \<open>Monotonicity of the look-ups\<close>

lemma IE1_mono:
  assumes "lf \<le> lf'" and a: "interpolate IE1_curve lf = Inr e"
    and b: "interpolate IE1_curve lf' = Inr e'"
  shows "e \<le> e'"
  by (rule quarters_cases [OF a [unfolded curve_anchors]];
      rule quarters_cases [OF b [unfolded curve_anchors]]; use assms(1) in argo)

lemma IE2_mono:
  assumes "lf \<le> lf'" and a: "interpolate IE2_curve lf = Inr e"
    and b: "interpolate IE2_curve lf' = Inr e'"
  shows "e \<le> e'"
  by (rule quarters_cases [OF a [unfolded curve_anchors]];
      rule quarters_cases [OF b [unfolded curve_anchors]]; use assms(1) in argo)

lemma IE3_mono:
  assumes "lf \<le> lf'" and a: "interpolate IE3_curve lf = Inr e"
    and b: "interpolate IE3_curve lf' = Inr e'"
  shows "e \<le> e'"
  by (rule quarters_cases [OF a [unfolded curve_anchors]];
      rule quarters_cases [OF b [unfolded curve_anchors]]; use assms(1) in argo)

lemma IE4_mono:
  assumes "lf \<le> lf'" and a: "interpolate IE4_curve lf = Inr e"
    and b: "interpolate IE4_curve lf' = Inr e'"
  shows "e \<le> e'"
  by (rule quarters_cases [OF a [unfolded curve_anchors]];
      rule quarters_cases [OF b [unfolded curve_anchors]]; use assms(1) in argo)

lemma vfd_antimono:
  assumes "lf \<le> lf'" and a: "interpolate vfd_savings_curve lf = Inr s"
    and b: "interpolate vfd_savings_curve lf' = Inr s'"
  shows "s' \<le> s"
  by (rule quarters_cases [OF a [unfolded curve_anchors]];
      rule quarters_cases [OF b [unfolded curve_anchors]]; use assms(1) in argo)

text \<open>
  C9: the anchor values of every efficiency curve are non-decreasing and those of the VFD
  savings curve non-increasing, and so are the look-ups: for load factors lf <= lf', at
  any values, clamped regions included, the efficiency of a class at lf is at most the one
  at lf', and the VFD savings fraction at lf is at least the one at lf'.
\<close>

theorem lookup_monotone:
  "(\<exists>pts. efficiency_curve c = Inr pts \<and> sorted (map snd pts)) \<and>
   sorted (rev (map snd vfd_savings_curve)) \<and>
   (lf \<le> lf' \<longrightarrow>
     (\<exists>e e'. get_efficiency c lf = Inr e \<and> get_efficiency c lf' = Inr e' \<and> e \<le> e') \<and>
     (\<exists>s s'. vfd_savings_fraction lf = Inr s \<and> vfd_savings_fraction lf' = Inr s' \<and> s' \<le> s))"
proof (intro conjI impI)
  show "\<exists>pts. efficiency_curve c = Inr pts \<and> sorted (map snd pts)"
    by (simp add: efficiency_curve_cases curve_anchors)
  show "sorted (rev (map snd vfd_savings_curve))"
    by (simp add: curve_anchors)
next
  assume le: "lf \<le> lf'"
  obtain pts where pts: "efficiency_curve c = Inr pts"
    "pts \<in> {IE1_curve, IE2_curve, IE3_curve, IE4_curve}"
    using efficiency_curve_in by blast
  have g: "get_efficiency c x = interpolate pts x" for x
    by (simp add: get_efficiency_def pts(1) bind_r_simps)
  obtain e where e: "interpolate pts lf = Inr e"
    using efficiency_interpolate_bounds [OF pts(2)] by blast
  obtain e' where e': "interpolate pts lf' = Inr e'"
    using efficiency_interpolate_bounds [OF pts(2)] by blast
  have "e \<le> e'"
    using pts(2) le e e' IE1_mono IE2_mono IE3_mono IE4_mono by blast
  then show "\<exists>e e'. get_efficiency c lf = Inr e \<and> get_efficiency c lf' = Inr e' \<and> e \<le> e'"
    unfolding g using e e' by blast
  obtain s where s: "vfd_savings_fraction lf = Inr s"
    using vfd_savings_fraction_bounds by blast
  obtain s' where s': "vfd_savings_fraction lf' = Inr s'"
    using vfd_savings_fraction_bounds by blast
  have "s' \<le> s"
    using vfd_antimono [OF le] s s' unfolding vfd_savings_fraction_def by blast
  then show "\<exists>s s'. vfd_savings_fraction lf = Inr s \<and> vfd_savings_fraction lf' = Inr s' \<and> s' \<le> s"
    using s s' by blast
qed

theorem lookup_monotone_witness:
  "(0.3::real) \<le> 0.9 \<and>
   (\<exists>e e'. get_efficiency ''IE3'' 0.3 = Inr e \<and> get_efficiency ''IE3'' 0.9 = Inr e' \<and> e \<le> e') \<and>
   (\<exists>s s'. vfd_savings_fraction 0.3 = Inr s \<and> vfd_savings_fraction 0.9 = Inr s' \<and> s' \<le> s)"
proof -
  have h: "(0.3::real) \<le> 0.9" by simp
  show ?thesis
    using h lookup_monotone [of "''IE3''" "0.3" "0.9"] by blast
qed

subsection \<open>The recommendation list\<close>

lemma motor_recs_eq:
  "\<forall>m\<in>set xs. mu_payback_years m \<le> 5 \<longrightarrow> mu_current_class m \<noteq> [] \<Longrightarrow>
     motor_recs xs = Inr (map motor_rec (filter (\<lambda>m. mu_payback_years m \<le> 5) xs))"
  by (induction xs) (simp_all add: bind_r_simps)

lemma motor_recs_error:
  "\<exists>m\<in>set xs. mu_payback_years m \<le> 5 \<and> mu_current_class m = [] \<Longrightarrow>
     motor_recs xs = Inl IndexError"
proof (induction xs)
  case Nil
  then show ?case by simp
next
  case (Cons a xs)
  show ?case
  proof (cases "mu_payback_years a \<le> 5 \<and> mu_current_class a = []")
    case True
    then show ?thesis by simp
  next
    case False
    then have "\<exists>m\<in>set xs. mu_payback_years m \<le> 5 \<and> mu_current_class m = []"
      using Cons.prems by auto
    then have "motor_recs xs = Inl IndexError" by (rule Cons.IH)
    then show ?thesis by (simp add: bind_r_simps)
  qed
qed

lemma vfd_recs_eq: "vfd_recs vs = map vfd_rec (filter (\<lambda>v. vfd_payback_years v \<le> 4) vs)"
  by (induction vs) simp_all

lemma lighting_recs_eq:
  "lighting_recs l lc = map (\<lambda>l. lighting_rec l lc) (filter (\<lambda>l. lt_payback_years l \<le> 5) [l])"
  by (simp add: lighting_recs_def)

lemma sort_recommendations_mset: "mset (sort_recommendations rs) = mset rs"
  by (simp add: sort_recommendations_def)

lemma sort_recommendations_sorted:
  "sorted_wrt (\<lambda>a b. rec_sort_key b \<le> rec_sort_key a) (sort_recommendations rs)"
proof -
  have "sorted (map (\<lambda>r. - rec_sort_key r) (sort_recommendations rs))"
    unfolding sort_recommendations_def by (rule sorted_sort_key)
  then show ?thesis by (simp add: sorted_map)
qed

lemma sort_recommendations_stable:
  "filter (\<lambda>r. rec_sort_key r = k) (sort_recommendations rs) =
   filter (\<lambda>r. rec_sort_key r = k) rs"
proof -
  have "filter (\<lambda>r. - rec_sort_key r = - k) (sort_key (\<lambda>r. - rec_sort_key r) rs) =
        filter (\<lambda>r. - rec_sort_key r = - k) rs"
    by (rule sort_key_stable)
  then show ?thesis by (simp add: sort_recommendations_def)
qed

lemma textile_run:
  "run_simulation [default_textile_motor_1] default_textile_lighting 300 4800 0.12 =
   Inr \<lparr>motor_upgrades =
          [\<lparr>mu_motor_id = 1, mu_rating = 15, mu_quantity = 8, mu_current_class = ''IE2'',
            mu_energy_savings = 480000 / 19, mu_cost_savings = 57600 / 19,
            mu_upgrade_cost = 4200, mu_payback_years = 133 / 96\<rparr>],
        vfd_savings =
          [\<lparr>vfd_motor_id = 1, vfd_rating = 15, vfd_quantity = 8, vfd_energy_savings = 43200,
            vfd_cost_savings = 5184, vfd_cost = 12000, vfd_payback_years = 125 / 54,
            vfd_savings_pct = 10\<rparr>],
        lighting_retrofit =
          \<lparr>lt_current_energy = 38400, lt_led_energy = 15360, lt_energy_savings = 23040,
           lt_cost_savings = 13824 / 5, lt_retrofit_cost = 30000,
           lt_payback_years = 3125 / 288\<rparr>\<rparr>"
  by (simp add: run_simulation_def motor_step_def evaluate_upgrade_def evaluate_vfd_def
      motor_locals_of_def motor_upgrade_entry_def calculate_vfd_savings_def
      vfd_savings_fraction_def get_efficiency_known get_efficiency_def efficiency_curve_cases
      curve_anchors interpolate_quarters
      fdiv_def dict_index_def dict_get_def MOTOR_COSTS_def bind_r_simps init_state_def
      evaluate_lighting_def calculate_lighting_energy_def LED_cost_per_unit_def Let_def
      default_textile_motor_1_def default_textile_lighting_def)

text \<open>
  C6: the ranker raises (an \<^verbatim>\<open>IndexError\<close>) exactly when a motor-upgrade result within
  its ceiling has an empty class name, and returns the empty list when no result is within
  its ceiling. Otherwise it returns a list that is a rearrangement of the list \<open>pre\<close>
  built before the sort, which holds, in this order, one recommendation for every
  motor-upgrade result with a payback of at most 5, in the order of the results, one for
  every VFD result with a payback of at most 4, in the order of the results, and one for
  the lighting result if its payback is at most 5; each takes its investment, savings and
  payback from its result, has priority High when the payback is at most 2 and Medium
  otherwise, and the sort key 1 / payback when the payback is positive and 0 otherwise. The
  sort keys of the returned list are non-increasing, and the recommendations of equal
  sort key stand in the order they have in \<open>pre\<close>. So every returned recommendation has a
  payback of at most the ceiling of its type.
\<close>

theorem ranked_recommendations:
  "((\<exists>m\<in>set (motor_upgrades res). mu_payback_years m \<le> 5 \<and> mu_current_class m = []) \<longrightarrow>
      recommendations res lc = Inl IndexError) \<and>
   ((\<forall>m\<in>set (motor_upgrades res). \<not> mu_payback_years m \<le> 5) \<and>
    (\<forall>v\<in>set (vfd_savings res). \<not> vfd_payback_years v \<le> 4) \<and>
    \<not> lt_payback_years (lighting_retrofit res) \<le> 5 \<longrightarrow>
      recommendations res lc = Inr []) \<and>
   ((\<forall>m\<in>set (motor_upgrades res). mu_payback_years m \<le> 5 \<longrightarrow> mu_current_class m \<noteq> []) \<longrightarrow>
     (\<exists>recs pre. recommendations res lc = Inr recs \<and>
        pre =
          map (\<lambda>motor.
                \<lparr>rec_type = ''Motor Upgrade'',
                 rec_description = MotorDesc (mu_motor_id motor)
                   (last (mu_current_class motor)) (mu_rating motor) (mu_quantity motor),
                 rec_investment = mu_upgrade_cost motor,
                 rec_annual_savings = mu_cost_savings motor,
                 rec_payback = mu_payback_years motor,
                 rec_priority = (if mu_payback_years motor \<le> 2 then ''High'' else ''Medium''),
                 rec_sort_key =
                   (if mu_payback_years motor > 0 then 1 / mu_payback_years motor else 0)\<rparr>)
            (filter (\<lambda>motor. mu_payback_years motor \<le> 5) (motor_upgrades res)) @
          map (\<lambda>vfd.
                \<lparr>rec_type = ''VFD Installation'',
                 rec_description = VfdDesc (vfd_motor_id vfd) (vfd_rating vfd) (vfd_quantity vfd),
                 rec_investment = vfd_cost vfd,
                 rec_annual_savings = vfd_cost_savings vfd,
                 rec_payback = vfd_payback_years vfd,
                 rec_priority = (if vfd_payback_years vfd \<le> 2 then ''High'' else ''Medium''),
                 rec_sort_key =
                   (if vfd_payback_years vfd > 0 then 1 / vfd_payback_years vfd else 0)\<rparr>)
            (filter (\<lambda>vfd. vfd_payback_years vfd \<le> 4) (vfd_savings res)) @
          map (\<lambda>lighting.
                \<lparr>rec_type = ''Lighting Retrofit'',
                 rec_description = LedDesc (num_fixtures lc) (led_wattage lc),
                 rec_investment = lt_retrofit_cost lighting,
                 rec_annual_savings = lt_cost_savings lighting,
                 rec_payback = lt_payback_years lighting,
                 rec_priority = (if lt_payback_years lighting \<le> 2 then ''High'' else ''Medium''),
                 rec_sort_key =
                   (if lt_payback_years lighting > 0 then 1 / lt_payback_years lighting
                    else 0)\<rparr>)
            (filter (\<lambda>lighting. lt_payback_years lighting \<le> 5) [lighting_retrofit res]) \<and>
        mset recs = mset pre \<and>
        sorted_wrt (\<lambda>a b. rec_sort_key b \<le> rec_sort_key a) recs \<and>
        (\<forall>k. filter (\<lambda>r. rec_sort_key r = k) recs = filter (\<lambda>r. rec_sort_key r = k) pre) \<and>
        (\<forall>r\<in>set recs.
           (rec_type r = ''Motor Upgrade'' \<and> rec_payback r \<le> 5 \<or>
            rec_type r = ''VFD Installation'' \<and> rec_payback r \<le> 4 \<or>
            rec_type r = ''Lighting Retrofit'' \<and> rec_payback r \<le> 5) \<and>
           rec_sort_key r = (if rec_payback r > 0 then 1 / rec_payback r else 0))))"
proof (intro conjI impI)
  assume "\<exists>m\<in>set (motor_upgrades res). mu_payback_years m \<le> 5 \<and> mu_current_class m = []"
  then have "motor_recs (motor_upgrades res) = Inl IndexError"
    by (rule motor_recs_error)
  then show "recommendations res lc = Inl IndexError"
    by (simp add: recommendations_def build_recommendations_def bind_r_simps)
next
  assume none: "(\<forall>m\<in>set (motor_upgrades res). \<not> mu_payback_years m \<le> 5) \<and>
    (\<forall>v\<in>set (vfd_savings res). \<not> vfd_payback_years v \<le> 4) \<and>
    \<not> lt_payback_years (lighting_retrofit res) \<le> 5"
  then have "motor_recs (motor_upgrades res) = Inr []"
    by (simp add: motor_recs_eq filter_empty_conv)
  moreover have "vfd_recs (vfd_savings res) = []"
    using none by (simp add: vfd_recs_eq filter_empty_conv)
  moreover have "lighting_recs (lighting_retrofit res) lc = []"
    using none by (simp add: lighting_recs_def)
  ultimately show "recommendations res lc = Inr []"
    by (simp add: recommendations_def build_recommendations_def bind_r_simps
        sort_recommendations_def)
next
  assume cls: "\<forall>m\<in>set (motor_upgrades res). mu_payback_years m \<le> 5 \<longrightarrow> mu_current_class m \<noteq> []"
  define pre where "pre =
     map motor_rec (filter (\<lambda>m. mu_payback_years m \<le> 5) (motor_upgrades res)) @
     map vfd_rec (filter (\<lambda>v. vfd_payback_years v \<le> 4) (vfd_savings res)) @
     map (\<lambda>l. lighting_rec l lc) (filter (\<lambda>l. lt_payback_years l \<le> 5) [lighting_retrofit res])"
  have build: "build_recommendations res lc = Inr pre"
    unfolding build_recommendations_def motor_recs_eq [OF cls] bind_r_simps
      vfd_recs_eq lighting_recs_eq pre_def ..
  have run: "recommendations res lc = Inr (sort_recommendations pre)"
    by (simp add: recommendations_def build bind_r_simps)
  have each: "(rec_type r = ''Motor Upgrade'' \<and> rec_payback r \<le> 5 \<or>
            rec_type r = ''VFD Installation'' \<and> rec_payback r \<le> 4 \<or>
            rec_type r = ''Lighting Retrofit'' \<and> rec_payback r \<le> 5) \<and>
           rec_sort_key r = (if rec_payback r > 0 then 1 / rec_payback r else 0)"
    if "r \<in> set pre" for r
    using that unfolding pre_def
    by (auto simp add: motor_rec_def vfd_rec_def lighting_rec_def sort_key_of_def
        split: if_splits)
  have same: "set (sort_recommendations pre) = set pre"
    using sort_recommendations_mset [of pre] by (rule mset_eq_setD)
  have "recommendations res lc = Inr (sort_recommendations pre) \<and>
        pre = pre \<and>
        mset (sort_recommendations pre) = mset pre \<and>
        sorted_wrt (\<lambda>a b. rec_sort_key b \<le> rec_sort_key a) (sort_recommendations pre) \<and>
        (\<forall>k. filter (\<lambda>r. rec_sort_key r = k) (sort_recommendations pre) =
             filter (\<lambda>r. rec_sort_key r = k) pre) \<and>
        (\<forall>r\<in>set (sort_recommendations pre).
           (rec_type r = ''Motor Upgrade'' \<and> rec_payback r \<le> 5 \<or>
            rec_type r = ''VFD Installation'' \<and> rec_payback r \<le> 4 \<or>
            rec_type r = ''Lighting Retrofit'' \<and> rec_payback r \<le> 5) \<and>
           rec_sort_key r = (if rec_payback r > 0 then 1 / rec_payback r else 0))"
    using run each sort_recommendations_sorted [of pre] sort_recommendations_stable [of _ pre]
      sort_recommendations_mset [of pre] same
    by blast
  then show "\<exists>recs pre. recommendations res lc = Inr recs \<and>
        pre =
          map (\<lambda>motor.
                \<lparr>rec_type = ''Motor Upgrade'',
                 rec_description = MotorDesc (mu_motor_id motor)
                   (last (mu_current_class motor)) (mu_rating motor) (mu_quantity motor),
                 rec_investment = mu_upgrade_cost motor,
                 rec_annual_savings = mu_cost_savings motor,
                 rec_payback = mu_payback_years motor,
                 rec_priority = (if mu_payback_years motor \<le> 2 then ''High'' else ''Medium''),
                 rec_sort_key =
                   (if mu_payback_years motor > 0 then 1 / mu_payback_years motor else 0)\<rparr>)
            (filter (\<lambda>motor. mu_payback_years motor \<le> 5) (motor_upgrades res)) @
          map (\<lambda>vfd.
                \<lparr>rec_type = ''VFD Installation'',
                 rec_description = VfdDesc (vfd_motor_id vfd) (vfd_rating vfd) (vfd_quantity vfd),
                 rec_investment = vfd_cost vfd,
                 rec_annual_savings = vfd_cost_savings vfd,
                 rec_payback = vfd_payback_years vfd,
                 rec_priority = (if vfd_payback_years vfd \<le> 2 then ''High'' else ''Medium''),
                 rec_sort_key =
                   (if vfd_payback_years vfd > 0 then 1 / vfd_payback_years vfd else 0)\<rparr>)
            (filter (\<lambda>vfd. vfd_payback_years vfd \<le> 4) (vfd_savings res)) @
          map (\<lambda>lighting.
                \<lparr>rec_type = ''Lighting Retrofit'',
                 rec_description = LedDesc (num_fixtures lc) (led_wattage lc),
                 rec_investment = lt_retrofit_cost lighting,
                 rec_annual_savings = lt_cost_savings lighting,
                 rec_payback = lt_payback_years lighting,
                 rec_priority = (if lt_payback_years lighting \<le> 2 then ''High'' else ''Medium''),
                 rec_sort_key =
                   (if lt_payback_years lighting > 0 then 1 / lt_payback_years lighting
                    else 0)\<rparr>)
            (filter (\<lambda>lighting. lt_payback_years lighting \<le> 5) [lighting_retrofit res]) \<and>
        mset recs = mset pre \<and>
        sorted_wrt (\<lambda>a b. rec_sort_key b \<le> rec_sort_key a) recs \<and>
        (\<forall>k. filter (\<lambda>r. rec_sort_key r = k) recs = filter (\<lambda>r. rec_sort_key r = k) pre) \<and>
        (\<forall>r\<in>set recs.
           (rec_type r = ''Motor Upgrade'' \<and> rec_payback r \<le> 5 \<or>
            rec_type r = ''VFD Installation'' \<and> rec_payback r \<le> 4 \<or>
            rec_type r = ''Lighting Retrofit'' \<and> rec_payback r \<le> 5) \<and>
           rec_sort_key r = (if rec_payback r > 0 then 1 / rec_payback r else 0))"
    unfolding pre_def motor_rec_def vfd_rec_def lighting_rec_def priority_of_def
      sort_key_of_def
    by blast
qed

theorem ranked_recommendations_witness:
  "\<exists>res recs.
     run_simulation [default_textile_motor_1] default_textile_lighting 300 4800 0.12 = Inr res \<and>
     list_all (\<lambda>m. mu_payback_years m \<le> 5 \<and> mu_current_class m \<noteq> []) (motor_upgrades res) \<and>
     recommendations res default_textile_lighting = Inr recs \<and>
     length recs = 2 \<and>
     sorted_wrt (\<lambda>a b. rec_sort_key b \<le> rec_sort_key a) recs \<and>
     list_all (\<lambda>r. rec_payback r \<le> 5) recs \<and>
     \<not> lt_payback_years (lighting_retrofit res) \<le> 5 \<and>
     recommendations (res\<lparr>motor_upgrades := [], vfd_savings := []\<rparr>) default_textile_lighting =
       Inr [] \<and>
     recommendations (res\<lparr>motor_upgrades := map (mu_current_class_update (\<lambda>_. []))
                                                (motor_upgrades res)\<rparr>)
       default_textile_lighting = Inl IndexError"
proof -
  define res where "res =
    \<lparr>motor_upgrades =
          [\<lparr>mu_motor_id = 1, mu_rating = 15, mu_quantity = 8, mu_current_class = ''IE2'',
            mu_energy_savings = 480000 / 19, mu_cost_savings = 57600 / 19,
            mu_upgrade_cost = 4200, mu_payback_years = 133 / 96\<rparr>],
        vfd_savings =
          [\<lparr>vfd_motor_id = 1, vfd_rating = 15, vfd_quantity = 8, vfd_energy_savings = 43200,
            vfd_cost_savings = 5184, vfd_cost = 12000, vfd_payback_years = 125 / 54,
            vfd_savings_pct = 10\<rparr>],
        lighting_retrofit =
          \<lparr>lt_current_energy = 38400, lt_led_energy = 15360, lt_energy_savings = 23040,
           lt_cost_savings = 13824 / 5, lt_retrofit_cost = 30000,
           lt_payback_years = 3125 / 288\<rparr>\<rparr>"
  have run: "run_simulation [default_textile_motor_1] default_textile_lighting 300 4800 0.12 =
    Inr res"
    unfolding res_def by (rule textile_run)
  have cls: "\<forall>m\<in>set (motor_upgrades res). mu_payback_years m \<le> 5 \<longrightarrow> mu_current_class m \<noteq> []"
    by (simp add: res_def)
  have cls2: "list_all (\<lambda>m. mu_payback_years m \<le> 5 \<and> mu_current_class m \<noteq> [])
      (motor_upgrades res)"
    by (simp add: res_def)
  have light: "\<not> lt_payback_years (lighting_retrofit res) \<le> 5"
    by (simp add: res_def)
  let ?res0 = "res\<lparr>motor_upgrades := [], vfd_savings := []\<rparr>"
  have none: "(\<forall>m\<in>set (motor_upgrades ?res0). \<not> mu_payback_years m \<le> 5) \<and>
    (\<forall>v\<in>set (vfd_savings ?res0). \<not> vfd_payback_years v \<le> 4) \<and>
    \<not> lt_payback_years (lighting_retrofit ?res0) \<le> 5"
    using light by simp
  have empty: "recommendations ?res0 default_textile_lighting = Inr []"
    using ranked_recommendations [of ?res0 default_textile_lighting] none by blast
  let ?res1 = "res\<lparr>motor_upgrades := map (mu_current_class_update (\<lambda>_. []))
      (motor_upgrades res)\<rparr>"
  have bad: "\<exists>m\<in>set (motor_upgrades ?res1). mu_payback_years m \<le> 5 \<and> mu_current_class m = []"
    by (simp add: res_def)
  have err: "recommendations ?res1 default_textile_lighting = Inl IndexError"
    using ranked_recommendations [of ?res1 default_textile_lighting] bad by blast
  obtain recs pre where recs: "recommendations res default_textile_lighting = Inr recs"
    "pre =
          map (\<lambda>motor.
                \<lparr>rec_type = ''Motor Upgrade'',
                 rec_description = MotorDesc (mu_motor_id motor)
                   (last (mu_current_class motor)) (mu_rating motor) (mu_quantity motor),
                 rec_investment = mu_upgrade_cost motor,
                 rec_annual_savings = mu_cost_savings motor,
                 rec_payback = mu_payback_years motor,
                 rec_priority = (if mu_payback_years motor \<le> 2 then ''High'' else ''Medium''),
                 rec_sort_key =
                   (if mu_payback_years motor > 0 then 1 / mu_payback_years motor else 0)\<rparr>)
            (filter (\<lambda>motor. mu_payback_years motor \<le> 5) (motor_upgrades res)) @
          map (\<lambda>vfd.
                \<lparr>rec_type = ''VFD Installation'',
                 rec_description = VfdDesc (vfd_motor_id vfd) (vfd_rating vfd) (vfd_quantity vfd),
                 rec_investment = vfd_cost vfd,
                 rec_annual_savings = vfd_cost_savings vfd,
                 rec_payback = vfd_payback_years vfd,
                 rec_priority = (if vfd_payback_years vfd \<le> 2 then ''High'' else ''Medium''),
                 rec_sort_key =
                   (if vfd_payback_years vfd > 0 then 1 / vfd_payback_years vfd else 0)\<rparr>)
            (filter (\<lambda>vfd. vfd_payback_years vfd \<le> 4) (vfd_savings res)) @
          map (\<lambda>lighting.
                \<lparr>rec_type = ''Lighting Retrofit'',
                 rec_description = LedDesc (num_fixtures default_textile_lighting)
                   (led_wattage default_textile_lighting),
                 rec_investment = lt_retrofit_cost lighting,
                 rec_annual_savings = lt_cost_savings lighting,
                 rec_payback = lt_payback_years lighting,
                 rec_priority = (if lt_payback_years lighting \<le> 2 then ''High'' else ''Medium''),
                 rec_sort_key =
                   (if lt_payback_years lighting > 0 then 1 / lt_payback_years lighting
                    else 0)\<rparr>)
            (filter (\<lambda>lighting. lt_payback_years lighting \<le> 5) [lighting_retrofit res])"
    "mset recs = mset pre"
    "sorted_wrt (\<lambda>a b. rec_sort_key b \<le> rec_sort_key a) recs"
    "\<forall>r\<in>set recs.
       (rec_type r = ''Motor Upgrade'' \<and> rec_payback r \<le> 5 \<or>
        rec_type r = ''VFD Installation'' \<and> rec_payback r \<le> 4 \<or>
        rec_type r = ''Lighting Retrofit'' \<and> rec_payback r \<le> 5) \<and>
       rec_sort_key r = (if rec_payback r > 0 then 1 / rec_payback r else 0)"
    using ranked_recommendations [of res default_textile_lighting] cls by blast
  have "length pre = 2" unfolding recs(2) by (simp add: res_def)
  then have len: "length recs = 2"
    using mset_eq_length [OF recs(3)] by simp
  have all: "list_all (\<lambda>r. rec_payback r \<le> 5) recs"
    unfolding list_all_iff using recs(5) by fastforce
  show ?thesis
    using run cls2 recs(1,4) len all light empty err by blast
qed

end
